theory Spec2Isabelle
  imports Main "HOL-Library.AList" "HOL-Library.Multiset"
begin

unbundle bit_operations_syntax

section \<open>container-build: option resolution and mount resolution\<close>

text \<open>
  A shallow embedding of \<^verbatim>\<open>src/container_build.py\<close>: the configuration merger
  (\<^verbatim>\<open>ConfigMerger\<close>, \<^verbatim>\<open>Options\<close>), the mount resolver (\<^verbatim>\<open>collect_volumes\<close>) and
  the control flow of \<^verbatim>\<open>main\<close> up to the hand-over to the Dockerfile and docker
  collaborators. Python values are a datatype, exceptions are the left summand of a sum
  type, the process environment and the file system are a record of functions, and the
  dict of volumes is an association list in insertion order.
\<close>

subsection \<open>Python values and exceptions\<close>

datatype pyval =
    PyNone
  | PyStr string
  | PyInt int
  | PyBool bool
  | PyList "pyval list"

datatype error =
    MissingSectionHeaderError
  | DuplicateSectionError
  | DuplicateOptionError
  | ParsingError
  | InterpolationSyntaxError
  | InterpolationMissingOptionError
  | InterpolationDepthError
  | NoSectionError
  | NoOptionError
  | AttributeError
  | TypeError
  | ValueError
  | FileNotFoundError
  | OSError

definition bind_res :: "error + 'a \<Rightarrow> ('a \<Rightarrow> error + 'b) \<Rightarrow> error + 'b" where
  "bind_res r f = (case r of Inl e \<Rightarrow> Inl e | Inr a \<Rightarrow> f a)"

text \<open>Python truthiness (\<^verbatim>\<open>if x:\<close>) of the values above.\<close>

fun truthy :: "pyval \<Rightarrow> bool" where
  "truthy PyNone = False"
| "truthy (PyStr s) = (s \<noteq> [])"
| "truthy (PyInt i) = (i \<noteq> 0)"
| "truthy (PyBool b) = b"
| "truthy (PyList xs) = (xs \<noteq> [])"

text \<open>
  Python's \<^verbatim>\<open>==\<close> on the values above. \<^verbatim>\<open>bool\<close> is a subclass of \<^verbatim>\<open>int\<close>
  (\<^verbatim>\<open>True == 1\<close>); a \<^verbatim>\<open>str\<close> never equals a number (\<^verbatim>\<open>'0' == 0\<close> is
  \<^verbatim>\<open>False\<close>).
\<close>

fun as_number :: "pyval \<Rightarrow> int option" where
  "as_number (PyInt i) = Some i"
| "as_number (PyBool b) = Some (if b then 1 else 0)"
| "as_number v = None"

definition py_eq_int :: "pyval \<Rightarrow> int \<Rightarrow> bool" where
  "py_eq_int v n = (as_number v = Some n)"

subsection \<open>Strings\<close>

text \<open>
  \<^verbatim>\<open>str.lower\<close>, \<^verbatim>\<open>str.isspace\<close>, \<^verbatim>\<open>str.strip\<close> and \<^verbatim>\<open>str.replace('-', '_')\<close>. A
  character is a code point below 256: the capitals are \<^verbatim>\<open>A\<close> to \<^verbatim>\<open>Z\<close> and U+00C0 to
  U+00DE without the multiplication sign U+00D7, and white space is the blank, U+0009 to
  U+000D, U+001C to U+001F, U+0085 and U+00A0, as \<^verbatim>\<open>str.isspace\<close> and the pattern for
  white space of \<^verbatim>\<open>re\<close> have it.
\<close>

definition upper_chars :: string where
  "upper_chars =
     ''ABCDEFGHIJKLMNOPQRSTUVWXYZ'' @
     [CHR 0xC0, CHR 0xC1, CHR 0xC2, CHR 0xC3, CHR 0xC4, CHR 0xC5, CHR 0xC6, CHR 0xC7,
      CHR 0xC8, CHR 0xC9, CHR 0xCA, CHR 0xCB, CHR 0xCC, CHR 0xCD, CHR 0xCE, CHR 0xCF,
      CHR 0xD0, CHR 0xD1, CHR 0xD2, CHR 0xD3, CHR 0xD4, CHR 0xD5, CHR 0xD6,
      CHR 0xD8, CHR 0xD9, CHR 0xDA, CHR 0xDB, CHR 0xDC, CHR 0xDD, CHR 0xDE]"

definition lower_chars :: string where
  "lower_chars =
     ''abcdefghijklmnopqrstuvwxyz'' @
     [CHR 0xE0, CHR 0xE1, CHR 0xE2, CHR 0xE3, CHR 0xE4, CHR 0xE5, CHR 0xE6, CHR 0xE7,
      CHR 0xE8, CHR 0xE9, CHR 0xEA, CHR 0xEB, CHR 0xEC, CHR 0xED, CHR 0xEE, CHR 0xEF,
      CHR 0xF0, CHR 0xF1, CHR 0xF2, CHR 0xF3, CHR 0xF4, CHR 0xF5, CHR 0xF6,
      CHR 0xF8, CHR 0xF9, CHR 0xFA, CHR 0xFB, CHR 0xFC, CHR 0xFD, CHR 0xFE]"

definition lower_char :: "char \<Rightarrow> char" where
  "lower_char c = (case map_of (zip upper_chars lower_chars) c of None \<Rightarrow> c | Some l \<Rightarrow> l)"

definition lower :: "string \<Rightarrow> string" where
  "lower s = map lower_char s"

definition isspace :: "char \<Rightarrow> bool" where
  "isspace c =
     (c \<in> set [CHR '' '', CHR 0x09, CHR 0x0A, CHR 0x0B, CHR 0x0C, CHR 0x0D,
                CHR 0x1C, CHR 0x1D, CHR 0x1E, CHR 0x1F, CHR 0x85, CHR 0xA0])"

definition lstrip :: "string \<Rightarrow> string" where
  "lstrip s = dropWhile isspace s"

definition rstrip :: "string \<Rightarrow> string" where
  "rstrip s = rev (dropWhile isspace (rev s))"

definition strip :: "string \<Rightarrow> string" where
  "strip s = rstrip (lstrip s)"

definition attr_name :: "string \<Rightarrow> string" where
  "attr_name name = map (\<lambda>c. if c = CHR ''-'' then CHR ''_'' else c) name"

fun split_where :: "(char \<Rightarrow> bool) \<Rightarrow> string \<Rightarrow> string list" where
  "split_where P [] = [[]]"
| "split_where P (x # xs) =
     (if P x then [] # split_where P xs
      else (case split_where P xs of [] \<Rightarrow> [[x]] | w # ws \<Rightarrow> (x # w) # ws))"

definition split_on :: "char \<Rightarrow> string \<Rightarrow> string list" where
  "split_on c s = split_where (\<lambda>x. x = c) s"

text \<open>The non-empty pieces of \<^verbatim>\<open>re.split\<close> at runs of white space.\<close>

definition words_of :: "string \<Rightarrow> string list" where
  "words_of s = filter (\<lambda>x. x \<noteq> []) (split_where isspace s)"

fun join :: "string \<Rightarrow> string list \<Rightarrow> string" where
  "join sep [] = []"
| "join sep [x] = x"
| "join sep (x # y # ys) = x @ sep @ join sep (y # ys)"

subsection \<open>The config file: \<^verbatim>\<open>configparser.ConfigParser(allow_no_value=True)\<close>\<close>

text \<open>
  The standard library's reader, as \<^verbatim>\<open>ConfigParser._read\<close> runs with the settings the
  source constructs it with: delimiters \<^verbatim>\<open>=\<close> and \<^verbatim>\<open>:\<close>, full-line comments starting
  with \<^verbatim>\<open>#\<close> or \<^verbatim>\<open>;\<close>, no inline comments, strict mode, empty lines kept in values,
  option names passed through \<^verbatim>\<open>optionxform = str.lower\<close>, the special section
  \<^verbatim>\<open>DEFAULT\<close>, and basic interpolation when a value is fetched. A section is an
  association list in file order; while reading, a value is the list of its lines, or
  \<^verbatim>\<open>None\<close> for a key written without a delimiter. A continuation line under such a key
  makes \<^verbatim>\<open>cursect[optname].append(value)\<close> raise \<^verbatim>\<open>AttributeError\<close>, as up to Python 3.12
  (later versions raise \<^verbatim>\<open>MultilineContinuationError\<close> at the same line).
\<close>

type_synonym 'v ini_section = "(string \<times> 'v option) list"

record ini_state =
  st_sections :: "(string \<times> string list ini_section) list"
  st_defaults :: "string list ini_section"
  st_sectname :: "string option"
  st_optname :: "string option"
  st_indent_level :: nat
  st_added_sections :: "string list"
  st_added_options :: "(string \<times> string) list"
  st_e :: bool

record ini_doc =
  doc_sections :: "(string \<times> string ini_section) list"
  doc_defaults :: "string ini_section"

definition default_section :: string where
  "default_section = ''DEFAULT''"

definition ini_initial :: ini_state where
  "ini_initial = \<lparr> st_sections = [], st_defaults = [], st_sectname = None, st_optname = None,
     st_indent_level = 0, st_added_sections = [], st_added_options = [], st_e = False \<rparr>"

text \<open>\<^verbatim>\<open>cursect\<close>: the dict of the section being read (\<^verbatim>\<open>self._defaults\<close> under \<^verbatim>\<open>[DEFAULT]\<close>).\<close>

definition cursect :: "ini_state \<Rightarrow> string list ini_section" where
  "cursect st =
     (case st_sectname st of
        None \<Rightarrow> []
      | Some n \<Rightarrow>
          if n = default_section then st_defaults st
          else (case map_of (st_sections st) n of None \<Rightarrow> [] | Some d \<Rightarrow> d))"

definition cursect_set :: "ini_state \<Rightarrow> string \<Rightarrow> string list option \<Rightarrow> ini_state" where
  "cursect_set st k v =
     (case st_sectname st of
        None \<Rightarrow> st
      | Some n \<Rightarrow>
          if n = default_section then st\<lparr> st_defaults := AList.update k v (st_defaults st) \<rparr>
          else st\<lparr> st_sections := AList.update n (AList.update k v (cursect st)) (st_sections st) \<rparr>)"

text \<open>\<^verbatim>\<open>optname\<close> is set and not the empty string (\<^verbatim>\<open>cursect is not None and optname\<close>).\<close>

definition current_option :: "ini_state \<Rightarrow> string option" where
  "current_option st =
     (case (st_sectname st, st_optname st) of
        (Some _, Some n) \<Rightarrow> if n = [] then None else Some n
      | _ \<Rightarrow> None)"

text \<open>\<^verbatim>\<open>SECTCRE.match\<close>: \<^verbatim>\<open>\[(?P<header>.+)\]\<close>, greedy, anchored at the start only.\<close>

definition match_section :: "string \<Rightarrow> string option" where
  "match_section v =
     (case v of
        [] \<Rightarrow> None
      | c # rest \<Rightarrow>
          (let header = rev (drop 1 (dropWhile (\<lambda>x. x \<noteq> CHR '']'') (rev rest)))
           in if c = CHR ''['' \<and> CHR '']'' \<in> set rest \<and> header \<noteq> [] then Some header else None))"

text \<open>
  \<^verbatim>\<open>OPTCRE_NV.match\<close>: the option name is the text before the first delimiter (all of
  the line when there is none), the value the text after it; it matches every line.
\<close>

definition is_delim :: "char \<Rightarrow> bool" where
  "is_delim c = (c = CHR ''='' \<or> c = CHR '':'')"

definition match_option :: "string \<Rightarrow> string \<times> string option" where
  "match_option v =
     (rstrip (takeWhile (\<lambda>c. \<not> is_delim c) v),
      case dropWhile (\<lambda>c. \<not> is_delim c) v of [] \<Rightarrow> None | _ # optval \<Rightarrow> Some optval)"

definition is_comment_line :: "string \<Rightarrow> bool" where
  "is_comment_line line =
     (case strip line of [] \<Rightarrow> False | c # _ \<Rightarrow> c = CHR ''#'' \<or> c = CHR '';'')"

definition read_header :: "ini_state \<Rightarrow> string \<Rightarrow> error + ini_state" where
  "read_header st sectname =
     (if sectname \<in> fst ` set (st_sections st) then
        (if sectname \<in> set (st_added_sections st) then Inl DuplicateSectionError
         else Inr (st\<lparr> st_sectname := Some sectname, st_optname := None,
                        st_added_sections := sectname # st_added_sections st \<rparr>))
      else if sectname = default_section then
        Inr (st\<lparr> st_sectname := Some sectname, st_optname := None \<rparr>)
      else
        Inr (st\<lparr> st_sections := st_sections st @ [(sectname, [])],
                   st_sectname := Some sectname, st_optname := None,
                   st_added_sections := sectname # st_added_sections st \<rparr>))"

definition read_option :: "ini_state \<Rightarrow> string \<Rightarrow> string \<Rightarrow> error + ini_state" where
  "read_option st sectname v =
     (let (raw_name, optval) = match_option v;
          e = (st_e st \<or> raw_name = []);
          optname = lower (rstrip raw_name)
      in if (sectname, optname) \<in> set (st_added_options st) then Inl DuplicateOptionError
         else Inr (cursect_set
                (st\<lparr> st_optname := Some optname, st_e := e,
                      st_added_options := (sectname, optname) # st_added_options st \<rparr>)
                optname
                (case optval of None \<Rightarrow> None | Some x \<Rightarrow> Some [strip x])))"

text \<open>One pass of the loop over the lines of the file.\<close>

definition read_line :: "ini_state \<Rightarrow> string \<Rightarrow> error + ini_state" where
  "read_line st line =
     (let val = (if is_comment_line line then [] else strip line) in
      if val = [] then
        (case current_option st of
           None \<Rightarrow> Inr st
         | Some optname \<Rightarrow>
             (case map_of (cursect st) optname of
                Some (Some ls) \<Rightarrow>
                  if is_comment_line line then Inr st
                  else Inr (cursect_set st optname (Some (ls @ [[]])))
              | _ \<Rightarrow> Inr st))
      else
        (let cur_indent_level = length (takeWhile isspace line) in
         case (if cur_indent_level > st_indent_level st then current_option st else None) of
           Some optname \<Rightarrow>
             (case map_of (cursect st) optname of
                Some (Some ls) \<Rightarrow> Inr (cursect_set st optname (Some (ls @ [val])))
              | _ \<Rightarrow> Inl AttributeError)
         | None \<Rightarrow>
             (let st1 = st\<lparr> st_indent_level := cur_indent_level \<rparr> in
              case match_section val of
                Some sectname \<Rightarrow> read_header st1 sectname
              | None \<Rightarrow>
                  (case st_sectname st1 of
                     None \<Rightarrow> Inl MissingSectionHeaderError
                   | Some sectname \<Rightarrow> read_option st1 sectname val))))"

fun read_lines :: "ini_state \<Rightarrow> string list \<Rightarrow> error + ini_state" where
  "read_lines st [] = Inr st"
| "read_lines st (line # rest) =
     (case read_line st line of Inl e \<Rightarrow> Inl e | Inr st' \<Rightarrow> read_lines st' rest)"

text \<open>\<^verbatim>\<open>_join_multiline_values\<close>, then the parsing error kept for the end of the file.\<close>

definition join_multiline_values :: "string list ini_section \<Rightarrow> string ini_section" where
  "join_multiline_values opts =
     map (\<lambda>(name, val). (name, map_option (\<lambda>ls. rstrip (join [CHR 0x0A] ls)) val)) opts"

definition ini_read :: "string list \<Rightarrow> error + ini_doc" where
  "ini_read lines =
     (case read_lines ini_initial lines of
        Inl e \<Rightarrow> Inl e
      | Inr st \<Rightarrow>
          if st_e st then Inl ParsingError
          else Inr \<lparr> doc_sections = map (\<lambda>(n, opts). (n, join_multiline_values opts)) (st_sections st),
                     doc_defaults = join_multiline_values (st_defaults st) \<rparr>)"

definition sections :: "ini_doc \<Rightarrow> string list" where
  "sections doc = map fst (doc_sections doc)"

definition has_option :: "ini_doc \<Rightarrow> string \<Rightarrow> string \<Rightarrow> bool" where
  "has_option doc section option =
     (if section = [] \<or> section = default_section then
        map_of (doc_defaults doc) (lower option) \<noteq> None
      else
        (case map_of (doc_sections doc) section of
           None \<Rightarrow> False
         | Some opts \<Rightarrow>
             map_of opts (lower option) \<noteq> None \<or> map_of (doc_defaults doc) (lower option) \<noteq> None))"

text \<open>\<^verbatim>\<open>_unify_values\<close>: the section's own options, then those of \<^verbatim>\<open>DEFAULT\<close>.\<close>

definition unify_values :: "ini_doc \<Rightarrow> string \<Rightarrow> error + (string \<Rightarrow> string option option)" where
  "unify_values doc section =
     (case map_of (doc_sections doc) section of
        None \<Rightarrow>
          if section \<noteq> default_section then Inl NoSectionError
          else Inr (map_of (doc_defaults doc))
      | Some opts \<Rightarrow>
          Inr (\<lambda>k. case map_of opts k of None \<Rightarrow> map_of (doc_defaults doc) k | Some v \<Rightarrow> Some v))"

text \<open>
  \<^verbatim>\<open>BasicInterpolation\<close>: \<^verbatim>\<open>%%\<close> is a percent sign, \<^verbatim>\<open>%(name)s\<close> the value of another
  option, any other \<^verbatim>\<open>%\<close> an error; nesting stops at \<^verbatim>\<open>MAX_INTERPOLATION_DEPTH = 10\<close>.
\<close>

datatype token = Lit char | Ref string | Bad

datatype scan = Normal | AfterPercent | InRef string | AfterClose string

fun tokenize_from :: "scan \<Rightarrow> string \<Rightarrow> token list" where
  "tokenize_from Normal [] = []"
| "tokenize_from AfterPercent [] = [Bad]"
| "tokenize_from (InRef var) [] = [Bad]"
| "tokenize_from (AfterClose var) [] = [Bad]"
| "tokenize_from Normal (c # cs) =
     (if c = CHR ''%'' then tokenize_from AfterPercent cs else Lit c # tokenize_from Normal cs)"
| "tokenize_from AfterPercent (c # cs) =
     (if c = CHR ''%'' then Lit c # tokenize_from Normal cs
      else if c = CHR ''('' then tokenize_from (InRef []) cs
      else [Bad])"
| "tokenize_from (InRef var) (c # cs) =
     (if c = CHR '')'' then (if var = [] then [Bad] else tokenize_from (AfterClose var) cs)
      else tokenize_from (InRef (var @ [c])) cs)"
| "tokenize_from (AfterClose var) (c # cs) =
     (if c = CHR ''s'' then Ref var # tokenize_from Normal cs else [Bad])"

fun interpolate_some ::
  "nat \<Rightarrow> (string \<Rightarrow> string option option) \<Rightarrow> token list \<Rightarrow> error + string" where
  "interpolate_some fuel m [] = Inr []"
| "interpolate_some fuel m (Lit c # ts) =
     (case interpolate_some fuel m ts of Inl e \<Rightarrow> Inl e | Inr r \<Rightarrow> Inr (c # r))"
| "interpolate_some fuel m (Bad # ts) = Inl InterpolationSyntaxError"
| "interpolate_some fuel m (Ref var # ts) =
     (case m (lower var) of
        None \<Rightarrow> Inl InterpolationMissingOptionError
      | Some None \<Rightarrow> Inl TypeError
      | Some (Some v) \<Rightarrow>
          if CHR ''%'' \<in> set v then
            (case fuel of
               0 \<Rightarrow> Inl InterpolationDepthError
             | Suc fuel' \<Rightarrow>
                 (case interpolate_some fuel' m (tokenize_from Normal v) of
                    Inl e \<Rightarrow> Inl e
                  | Inr r \<Rightarrow>
                      (case interpolate_some fuel m ts of Inl e \<Rightarrow> Inl e | Inr r' \<Rightarrow> Inr (r @ r'))))
          else (case interpolate_some fuel m ts of Inl e \<Rightarrow> Inl e | Inr r' \<Rightarrow> Inr (v @ r')))"

definition before_get :: "(string \<Rightarrow> string option option) \<Rightarrow> string \<Rightarrow> error + string" where
  "before_get m v = interpolate_some 9 m (tokenize_from Normal v)"

text \<open>\<^verbatim>\<open>ConfigParser.get(section, option)\<close>: \<^verbatim>\<open>None\<close> for a key without a value.\<close>

definition ini_get :: "ini_doc \<Rightarrow> string \<Rightarrow> string \<Rightarrow> error + string option" where
  "ini_get doc section option =
     (case unify_values doc section of
        Inl e \<Rightarrow> Inl e
      | Inr d \<Rightarrow>
          (case d (lower option) of
             None \<Rightarrow> Inl NoOptionError
           | Some None \<Rightarrow> Inr None
           | Some (Some v) \<Rightarrow>
               (case before_get d v of Inl e \<Rightarrow> Inl e | Inr s \<Rightarrow> Inr (Some s))))"

subsection \<open>Paths: \<^verbatim>\<open>pathlib.Path\<close> on POSIX\<close>

text \<open>
  A path is its root (\<^verbatim>\<open>''\<close>, \<^verbatim>\<open>/\<close> or \<^verbatim>\<open>//\<close>) and its parts; parsing drops empty
  parts and \<^verbatim>\<open>.\<close>, and a rooted argument discards what came before it.
\<close>

record pure_path =
  p_root :: string
  p_parts :: "string list"

definition splitroot :: "string \<Rightarrow> string \<times> string" where
  "splitroot part =
     (case part of
        [] \<Rightarrow> ([], part)
      | c # _ \<Rightarrow>
          if c = CHR ''/'' then
            (let stripped_part = dropWhile (\<lambda>x. x = CHR ''/'') part
             in (if length part - length stripped_part = 2 then ''//'' else ''/'', stripped_part))
          else ([], part))"

definition rel_parts :: "string \<Rightarrow> string list" where
  "rel_parts rel = filter (\<lambda>x. x \<noteq> [] \<and> x \<noteq> ''.'') (split_on CHR ''/'' rel)"

fun parse_parts :: "pure_path \<Rightarrow> string list \<Rightarrow> pure_path" where
  "parse_parts p [] = p"
| "parse_parts p (part # rest) =
     (if part = [] then parse_parts p rest
      else
        (let (root, rel) = splitroot part
         in parse_parts
              (if root \<noteq> [] then \<lparr> p_root = root, p_parts = rel_parts rel \<rparr>
               else p\<lparr> p_parts := p_parts p @ rel_parts rel \<rparr>)
              rest))"

definition Path :: "string list \<Rightarrow> pure_path" where
  "Path args = parse_parts \<lparr> p_root = [], p_parts = [] \<rparr> args"

definition path_str :: "pure_path \<Rightarrow> string" where
  "path_str p = (let s = p_root p @ join ''/'' (p_parts p) in if s = [] then ''.'' else s)"

definition path_name :: "pure_path \<Rightarrow> string" where
  "path_name p = (if p_parts p = [] then [] else last (p_parts p))"

text \<open>\<^verbatim>\<open>os.path.join\<close> of two components (\<^verbatim>\<open>DirEntry.path\<close>).\<close>

definition os_path_join :: "string \<Rightarrow> string \<Rightarrow> string" where
  "os_path_join a b =
     (if b \<noteq> [] \<and> hd b = CHR ''/'' then b
      else if a = [] \<or> last a = CHR ''/'' then a @ b
      else a @ ''/'' @ b)"

subsection \<open>Constants\<close>

definition CONFIG_DIRECTORY :: string where
  "CONFIG_DIRECTORY = ''container-build''"

definition DEFAULT_APT_KEYS :: string where
  "DEFAULT_APT_KEYS = path_str (Path [CONFIG_DIRECTORY, ''apt-keys''])"

definition DEFAULT_APT_SOURCES_FILE :: string where
  "DEFAULT_APT_SOURCES_FILE = path_str (Path [CONFIG_DIRECTORY, ''sources.list''])"

definition DEFAULT_BASE_IMAGE :: string where
  "DEFAULT_BASE_IMAGE = ''debian:stretch-slim''"

definition DEFAULT_CONFIG_FILE :: string where
  "DEFAULT_CONFIG_FILE = path_str (Path [CONFIG_DIRECTORY, ''build.cfg''])"

definition DEFAULT_DOCKER :: string where
  "DEFAULT_DOCKER = ''docker''"

definition DEFAULT_DOCKER_HOST :: string where
  "DEFAULT_DOCKER_HOST = ''unix:///var/run/docker.sock''"

definition DEFAULT_DOCKER_RUN_FLAGS :: string where
  "DEFAULT_DOCKER_RUN_FLAGS = ''--interactive --tty --rm --env LC_ALL=C.UTF-8''"

definition DEFAULT_HOME_DIR :: string where
  "DEFAULT_HOME_DIR = ''/home/build''"

definition DEFAULT_INSTALL_SCRIPT :: string where
  "DEFAULT_INSTALL_SCRIPT = path_str (Path [CONFIG_DIRECTORY, ''install.sh''])"

definition DEFAULT_PACKAGES_FILE :: string where
  "DEFAULT_PACKAGES_FILE = path_str (Path [CONFIG_DIRECTORY, ''packages''])"

definition DEFAULT_SHELL :: string where
  "DEFAULT_SHELL = ''/bin/bash''"

definition DEFAULT_USERNAME :: string where
  "DEFAULT_USERNAME = ''build''"

definition DEFAULT_WORK_DIR :: string where
  "DEFAULT_WORK_DIR = ''src''"

subsection \<open>The process environment and the file system\<close>

text \<open>
  What the operating system answers. \<^verbatim>\<open>Path.resolve()\<close> is called without
  \<^verbatim>\<open>strict=True\<close>: it makes the path absolute and follows the symlinks that exist, and
  it does not raise for a path that does not exist (the source's f-strings need
  Python 3.6, where \<^verbatim>\<open>strict\<close> became \<^verbatim>\<open>False\<close> by default), so it is a total
  function here. \<^verbatim>\<open>Path.is_dir()\<close> and \<^verbatim>\<open>os.path.exists\<close> answer \<^verbatim>\<open>False\<close> for a
  missing path. \<^verbatim>\<open>open\<close> and \<^verbatim>\<open>os.listdir\<close> take whatever value the option resolved
  to; \<^verbatim>\<open>open_read\<close> gives the decoded text of the file, its line ends translated to
  U+000A and its characters code points below 256. \<^verbatim>\<open>urlparse\<close> gives the scheme and
  the path of a URL, \<^verbatim>\<open>stat\<close> the owner, mode and group of a file.
\<close>

record dirent =
  d_name :: string
  d_is_symlink :: bool
  d_is_dir :: bool

record world =
  getenv :: "string \<Rightarrow> string option"
  geteuid :: int
  getegid :: int
  cwd_name :: string
  path_exists :: "string \<Rightarrow> bool"
  is_dir :: "string \<Rightarrow> bool"
  resolve :: "string \<Rightarrow> string"
  scandir :: "string \<Rightarrow> error + dirent list"
  open_read :: "pyval \<Rightarrow> error + string"
  listdir :: "pyval \<Rightarrow> error + string list"
  urlparse :: "string \<Rightarrow> string \<times> string"
  stat :: "string \<Rightarrow> error + int \<times> int \<times> int"

definition is_oserror :: "error \<Rightarrow> bool" where
  "is_oserror e = (e = OSError \<or> e = FileNotFoundError)"

subsection \<open>\<^verbatim>\<open>ConfigMerger\<close>\<close>

text \<open>The namespace \<^verbatim>\<open>parse_args\<close> returns: its attributes and their values.\<close>

type_synonym namespace = "(string \<times> pyval) list"

record config_merger =
  cm_args :: namespace
  cm_config :: "ini_doc option"
  cm_config_section :: string
  cm_config_file :: pyval

text \<open>\<^verbatim>\<open>getattr(args, name, None)\<close>.\<close>

definition getattr :: "namespace \<Rightarrow> string \<Rightarrow> pyval" where
  "getattr args name = (case map_of args name of None \<Rightarrow> PyNone | Some v \<Rightarrow> v)"

text \<open>
  \<^verbatim>\<open>get_or_else(name, default)\<close>; \<^verbatim>\<open>default\<close> is \<^verbatim>\<open>None\<close> or a callable, given here by
  the value it returns.
\<close>

definition get_or_else :: "config_merger \<Rightarrow> string \<Rightarrow> pyval option \<Rightarrow> error + pyval" where
  "get_or_else self name dflt =
     (let arg = getattr (cm_args self) (attr_name name);
          by_default = (case dflt of None \<Rightarrow> Inr PyNone | Some d \<Rightarrow> Inr d)
      in if arg \<noteq> PyNone then Inr arg
         else
           (case cm_config self of
              None \<Rightarrow> by_default
            | Some config \<Rightarrow>
                if has_option config (cm_config_section self) name then
                  (case ini_get config (cm_config_section self) name of
                     Inl e \<Rightarrow> Inl e
                   | Inr (Some config_value) \<Rightarrow> Inr (PyStr config_value)
                   | Inr None \<Rightarrow> Inr (PyBool True))
                else by_default))"

definition get :: "config_merger \<Rightarrow> string \<Rightarrow> pyval \<Rightarrow> error + pyval" where
  "get self name dflt = get_or_else self name (Some dflt)"

definition get_flag :: "config_merger \<Rightarrow> string \<Rightarrow> error + bool" where
  "get_flag self name =
     bind_res (get self name PyNone)
       (\<lambda>val. case val of PyBool b \<Rightarrow> Inr b | _ \<Rightarrow> Inr (val \<noteq> PyNone))"

definition get_list :: "config_merger \<Rightarrow> string \<Rightarrow> error + pyval" where
  "get_list self name =
     bind_res (get self name (PyList []))
       (\<lambda>val. case val of
                 PyList xs \<Rightarrow> Inr val
               | PyNone \<Rightarrow> Inr (PyList [])
               | _ \<Rightarrow> Inr (PyList [val]))"

definition get_env :: "world \<Rightarrow> config_merger \<Rightarrow> string \<Rightarrow> pyval \<Rightarrow> error + pyval" where
  "get_env w self name dflt =
     (case getenv w name of
        Some env \<Rightarrow> Inr (PyStr env)
      | None \<Rightarrow> get self (lower name) dflt)"

text \<open>The default of \<^verbatim>\<open>get_file\<close>: \<^verbatim>\<open>None\<close>, one path, or a list of candidate paths.\<close>

datatype file_default = NoDefault | OnePath string | PathList "string list"

definition get_file :: "world \<Rightarrow> config_merger \<Rightarrow> string \<Rightarrow> file_default \<Rightarrow> error + pyval" where
  "get_file w self name dflt =
     bind_res (get self name PyNone)
       (\<lambda>arg.
          if arg \<noteq> PyNone then Inr arg
          else if dflt = NoDefault then Inr PyNone
          else
            bind_res (get self (''no-'' @ name) PyNone)
              (\<lambda>no. if truthy no then Inr PyNone
                     else
                       (case dflt of
                          PathList candidates \<Rightarrow>
                            (let present = filter (path_exists w) candidates
                             in if present \<noteq> [] then Inr (PyList (map PyStr present)) else Inr PyNone)
                        | OnePath default_path \<Rightarrow>
                            if path_exists w default_path then Inr (PyStr default_path) else Inr PyNone
                        | NoDefault \<Rightarrow> Inr PyNone)))"

text \<open>The lines of a text file, as iterating over the open file gives them.\<close>

definition file_lines :: "string \<Rightarrow> string list" where
  "file_lines text =
     (let ls = split_on (CHR 0x0A) text in if last ls = [] then butlast ls else ls)"

definition empty_doc :: ini_doc where
  "empty_doc = \<lparr> doc_sections = [], doc_defaults = [] \<rparr>"

text \<open>
  \<^verbatim>\<open>config.read(self.config_file)\<close>: a file that cannot be opened is skipped and leaves
  the parser empty; an error of the reader is not caught.
\<close>

definition config_read :: "world \<Rightarrow> pyval \<Rightarrow> error + ini_doc" where
  "config_read w config_file =
     (case open_read w config_file of
        Inl e \<Rightarrow> if is_oserror e then Inr empty_doc else Inl e
      | Inr text \<Rightarrow> ini_read (file_lines text))"

definition ConfigMerger_init :: "world \<Rightarrow> namespace \<Rightarrow> error + config_merger" where
  "ConfigMerger_init w args =
     (let self = \<lparr> cm_args = args, cm_config = None, cm_config_section = [],
                    cm_config_file = PyNone \<rparr>
      in bind_res (get_file w self ''config-file'' (OnePath DEFAULT_CONFIG_FILE))
           (\<lambda>config_file.
              if config_file = PyNone then Inr self
              else
                bind_res (config_read w config_file)
                  (\<lambda>config.
                     case sections config of
                       [] \<Rightarrow> Inr (self\<lparr> cm_config_file := config_file \<rparr>)
                     | first # _ \<Rightarrow>
                         Inr (self\<lparr> cm_config_file := config_file, cm_config := Some config,
                                     cm_config_section := first \<rparr>))))"

subsection \<open>\<^verbatim>\<open>Options\<close>\<close>

record options =
  opt_apt_keys :: pyval
  opt_apt_sources_file :: pyval
  opt_base_image :: pyval
  opt_command :: pyval
  opt_directory :: pyval
  opt_docker :: pyval
  opt_docker_host :: pyval
  opt_docker_passthrough :: bool
  opt_docker_run_flags :: pyval
  opt_gid :: pyval
  opt_image_name :: pyval
  opt_home_dir :: pyval
  opt_install_script :: pyval
  opt_mount :: pyval
  opt_no_recursive_mount :: bool
  opt_package :: pyval
  opt_packages_file :: pyval
  opt_uid :: pyval
  opt_username :: pyval
  opt_shell :: pyval
  opt_verbose :: int
  opt_work_dir :: pyval

definition infer_name :: "world \<Rightarrow> string" where
  "infer_name w = cwd_name w @ ''-builder''"

text \<open>
  \<^verbatim>\<open>int(x)\<close> on a resolved value: a number as it is, a string as a signed decimal
  literal (underscores between digits allowed), anything else a \<^verbatim>\<open>TypeError\<close>.
\<close>

definition digit_value :: "char \<Rightarrow> int option" where
  "digit_value c = map_of (zip ''0123456789'' [0, 1, 2, 3, 4, 5, 6, 7, 8, 9]) c"

fun well_grouped :: "string \<Rightarrow> bool" where
  "well_grouped [] = False"
| "well_grouped [c] = (digit_value c \<noteq> None)"
| "well_grouped (c # d # rest) =
     (digit_value c \<noteq> None \<and>
      (if d = CHR ''_'' then well_grouped rest else well_grouped (d # rest)))"

definition decimal_value :: "string \<Rightarrow> int" where
  "decimal_value body =
     foldl (\<lambda>acc c. case digit_value c of None \<Rightarrow> acc | Some d \<Rightarrow> 10 * acc + d) 0 body"

definition parse_int :: "string \<Rightarrow> error + int" where
  "parse_int s =
     (let t = strip s;
          negative = (t \<noteq> [] \<and> hd t = CHR ''-'');
          body = (if t \<noteq> [] \<and> (hd t = CHR ''-'' \<or> hd t = CHR ''+'') then tl t else t)
      in if well_grouped body then Inr ((if negative then - 1 else 1) * decimal_value body)
         else Inl ValueError)"

fun py_int :: "pyval \<Rightarrow> error + int" where
  "py_int (PyInt i) = Inr i"
| "py_int (PyBool b) = Inr (if b then 1 else 0)"
| "py_int (PyStr s) = parse_int s"
| "py_int v = Inl TypeError"

definition Options_init :: "world \<Rightarrow> config_merger \<Rightarrow> error + options" where
  "Options_init w config =
     bind_res (get_file w config ''apt-keys'' (OnePath DEFAULT_APT_KEYS)) (\<lambda>apt_keys.
     bind_res (get_file w config ''apt-sources-file'' (OnePath DEFAULT_APT_SOURCES_FILE)) (\<lambda>apt_sources_file.
     bind_res (get config ''base-image'' (PyStr DEFAULT_BASE_IMAGE)) (\<lambda>base_image.
     bind_res (get config ''command'' PyNone) (\<lambda>command.
     bind_res (get config ''directory'' PyNone) (\<lambda>directory.
     bind_res (get_env w config ''DOCKER'' (PyStr DEFAULT_DOCKER)) (\<lambda>docker.
     bind_res (get_env w config ''DOCKER_HOST'' (PyStr DEFAULT_DOCKER_HOST)) (\<lambda>docker_host.
     bind_res (get_flag config ''docker-passthrough'') (\<lambda>docker_passthrough.
     bind_res (get_env w config ''DOCKER_RUN_FLAGS'' (PyStr DEFAULT_DOCKER_RUN_FLAGS)) (\<lambda>docker_run_flags.
     bind_res (get_or_else config ''gid'' (Some (PyInt (getegid w)))) (\<lambda>gid.
     bind_res (get_or_else config ''name'' (Some (PyStr (infer_name w)))) (\<lambda>image_name.
     bind_res (get config ''home-dir'' (PyStr DEFAULT_HOME_DIR)) (\<lambda>home_dir.
     bind_res (get_file w config ''install-script'' (PathList [DEFAULT_INSTALL_SCRIPT])) (\<lambda>install_script.
     bind_res (get config ''mount'' (PyList [PyStr ''.''])) (\<lambda>mount.
     bind_res (get_flag config ''no-recursive-mount'') (\<lambda>no_recursive_mount.
     bind_res (get_list config ''package'') (\<lambda>package.
     bind_res (get config ''packages-file'' (PyStr DEFAULT_PACKAGES_FILE)) (\<lambda>packages_file.
     bind_res (get_or_else config ''uid'' (Some (PyInt (geteuid w)))) (\<lambda>uid.
     bind_res (get config ''username'' (PyStr DEFAULT_USERNAME)) (\<lambda>username.
     bind_res (get config ''shell'' (PyStr DEFAULT_SHELL)) (\<lambda>shell.
     bind_res (bind_res (get config ''verbose'' (PyInt 0)) py_int) (\<lambda>verbose.
     bind_res (get config ''work-dir'' (PyStr DEFAULT_WORK_DIR)) (\<lambda>work_dir.
     Inr \<lparr> opt_apt_keys = apt_keys, opt_apt_sources_file = apt_sources_file,
           opt_base_image = base_image, opt_command = command, opt_directory = directory,
           opt_docker = docker, opt_docker_host = docker_host,
           opt_docker_passthrough = docker_passthrough,
           opt_docker_run_flags = docker_run_flags, opt_gid = gid,
           opt_image_name = image_name, opt_home_dir = home_dir,
           opt_install_script = install_script, opt_mount = mount,
           opt_no_recursive_mount = no_recursive_mount, opt_package = package,
           opt_packages_file = packages_file, opt_uid = uid, opt_username = username,
           opt_shell = shell, opt_verbose = verbose,
           opt_work_dir = work_dir \<rparr>))))))))))))))))))))))"

subsection \<open>\<^verbatim>\<open>collect_volumes\<close>\<close>

text \<open>
  The dict \<^verbatim>\<open>volumes\<close> is an association list in insertion order; \<^verbatim>\<open>volumes[k] = v\<close> is
  \<^const>\<open>AList.update\<close>, which overwrites the value of a key that is present and keeps its place.
\<close>

type_synonym volumes = "(string \<times> string) list"

text \<open>Iterating over a value: a list gives its elements, a string its characters.\<close>

fun py_iter :: "pyval \<Rightarrow> error + pyval list" where
  "py_iter (PyList xs) = Inr xs"
| "py_iter (PyStr s) = Inr (map (\<lambda>c. PyStr [c]) s)"
| "py_iter v = Inl TypeError"

text \<open>The inner loop, over the entries of \<^verbatim>\<open>os.scandir(mount_src)\<close>.\<close>

fun scan_subdirs :: "world \<Rightarrow> string \<Rightarrow> pure_path \<Rightarrow> dirent list \<Rightarrow> volumes \<Rightarrow> volumes" where
  "scan_subdirs w mount_src mount_dst [] volumes = volumes"
| "scan_subdirs w mount_src mount_dst (subdir # rest) volumes =
     scan_subdirs w mount_src mount_dst rest
       (if d_is_symlink subdir \<and> d_is_dir subdir then
          (let subdir_src = resolve w (path_str (Path [os_path_join mount_src (d_name subdir)]));
               subdir_dst = Path [path_str mount_dst, d_name subdir]
           in AList.update subdir_src (path_str subdir_dst) volumes)
        else volumes)"

text \<open>The outer loop, over \<^verbatim>\<open>mount_args\<close>.\<close>

fun collect_loop :: "world \<Rightarrow> pyval list \<Rightarrow> string \<Rightarrow> bool \<Rightarrow> volumes \<Rightarrow> error + volumes" where
  "collect_loop w [] work_dir recursive volumes = Inr volumes"
| "collect_loop w (PyStr mount_arg_str # rest) work_dir recursive volumes =
     (let mount_arg = Path [mount_arg_str];
          mount_src = resolve w (path_str mount_arg);
          mount_dst = Path [work_dir, path_name mount_arg];
          volumes1 = AList.update mount_src (path_str mount_dst) volumes
      in if recursive \<and> is_dir w mount_src then
           (case scandir w mount_src of
              Inl e \<Rightarrow> Inl e
            | Inr subdirs \<Rightarrow>
                collect_loop w rest work_dir recursive
                  (scan_subdirs w mount_src mount_dst subdirs volumes1))
         else collect_loop w rest work_dir recursive volumes1)"
| "collect_loop w (v # rest) work_dir recursive volumes = Inl TypeError"

definition collect_volumes :: "world \<Rightarrow> pyval \<Rightarrow> string \<Rightarrow> bool \<Rightarrow> error + volumes" where
  "collect_volumes w mount_args work_dir recursive =
     bind_res (py_iter mount_args) (\<lambda>args. collect_loop w args work_dir recursive [])"

subsection \<open>\<^verbatim>\<open>main\<close>\<close>

text \<open>
  The control flow of \<^verbatim>\<open>main\<close> from the parsed arguments to the hand-over to the
  collaborators that write the build context and call docker. An \<^verbatim>\<open>exit(1)\<close> after a
  printed message is \<open>Exit\<close> with the message's kind, an exception that no handler of
  \<^verbatim>\<open>main\<close> catches is \<open>Uncaught\<close>, and \<open>Orchestrate\<close> carries what \<^verbatim>\<open>run_docker\<close> is
  called with. Of \<^verbatim>\<open>generate_dockerfile\<close> only its loop over \<^verbatim>\<open>apt_keys\<close> matters to the
  control flow: it raises when \<^verbatim>\<open>apt_keys\<close> is \<^verbatim>\<open>None\<close>.
\<close>

datatype message =
    PackagesFileMessage
  | RootMessage
  | MountPathMessage
  | SocketSchemeMessage
  | SocketGroupWritableMessage
  | SocketGroupZeroMessage
  | SocketPathMessage

record build_request =
  req_docker :: pyval
  req_docker_run_flags :: pyval
  req_image_name :: pyval
  req_uid :: pyval
  req_gid :: pyval
  req_groups :: "int list"
  req_volumes :: volumes
  req_command :: pyval

datatype outcome =
    Exit int message
  | Uncaught error
  | Orchestrate build_request

fun map_res :: "('a \<Rightarrow> error + 'b) \<Rightarrow> 'a list \<Rightarrow> error + 'b list" where
  "map_res f [] = Inr []"
| "map_res f (x # xs) =
     (case f x of
        Inl e \<Rightarrow> Inl e
      | Inr y \<Rightarrow> (case map_res f xs of Inl e \<Rightarrow> Inl e | Inr ys \<Rightarrow> Inr (y # ys)))"

definition read_packages :: "world \<Rightarrow> pyval \<Rightarrow> error + string list" where
  "read_packages w packages_path = bind_res (open_read w packages_path) (\<lambda>text. Inr (words_of text))"

text \<open>The packages of the \<^verbatim>\<open>--package\<close> arguments, each split at white space.\<close>

fun split_package_arg :: "pyval \<Rightarrow> error + string list" where
  "split_package_arg (PyStr package_arg) = Inr (words_of package_arg)"
| "split_package_arg v = Inl TypeError"

definition package_args :: "pyval \<Rightarrow> error + string list" where
  "package_args package =
     (if truthy package then
        bind_res (py_iter package)
          (\<lambda>args. bind_res (map_res split_package_arg args) (\<lambda>ps. Inr (concat ps)))
      else Inr [])"

fun py_path_name :: "pyval \<Rightarrow> error + string" where
  "py_path_name (PyStr s) = Inr (path_name (Path [s]))"
| "py_path_name v = Inl TypeError"

definition install_script_names :: "pyval \<Rightarrow> error + (nat \<times> string) list" where
  "install_script_names install_scripts_src =
     bind_res (py_iter (if truthy install_scripts_src then install_scripts_src else PyList []))
       (\<lambda>srcs. bind_res (map_res py_path_name srcs) (\<lambda>names. Inr (enumerate 0 names)))"

fun py_str2 :: "pyval \<Rightarrow> pyval \<Rightarrow> error + string" where
  "py_str2 (PyStr a) (PyStr b) = Inr (path_str (Path [a, b]))"
| "py_str2 a b = Inl TypeError"

text \<open>\<^verbatim>\<open>os.listdir(opts.apt_keys)\<close> and, for each name, \<^verbatim>\<open>Path(opts.apt_keys, name)\<close>.\<close>

definition list_apt_keys :: "world \<Rightarrow> pyval \<Rightarrow> error + string list" where
  "list_apt_keys w apt_keys =
     bind_res (listdir w apt_keys)
       (\<lambda>names. case apt_keys of
                   PyStr d \<Rightarrow> Inr names
                 | _ \<Rightarrow> if names = [] then Inr [] else Inl TypeError)"

definition generate_dockerfile :: "string list option \<Rightarrow> error + unit" where
  "generate_dockerfile apt_keys = (case apt_keys of None \<Rightarrow> Inl TypeError | Some ks \<Rightarrow> Inr ())"

text \<open>The block under \<^verbatim>\<open>if opts.docker_passthrough\<close>: the volumes and groups it leaves.\<close>

definition passthrough :: "world \<Rightarrow> options \<Rightarrow> volumes \<Rightarrow> outcome + volumes \<times> int list" where
  "passthrough w opts volumes =
     (case opt_docker_host opts of
        PyStr url \<Rightarrow>
          (let (scheme, path) = urlparse w url in
           if scheme \<noteq> ''unix'' then Inl (Exit 1 SocketSchemeMessage)
           else
             (let passthrough_sock_dst = Path [path];
                  passthrough_sock_src = resolve w (path_str passthrough_sock_dst);
                  volumes1 = AList.update passthrough_sock_src (path_str passthrough_sock_dst) volumes
              in case stat w passthrough_sock_src of
                   Inl e \<Rightarrow> Inl (if is_oserror e then Exit 1 SocketPathMessage else Uncaught e)
                 | Inr (st_uid, st_mode, st_gid) \<Rightarrow>
                     if py_eq_int (opt_uid opts) st_uid then Inr (volumes1, [])
                     else if st_mode AND 48 \<noteq> 48 then Inl (Exit 1 SocketGroupWritableMessage)
                     else if st_gid = 0 then Inl (Exit 1 SocketGroupZeroMessage)
                     else Inr (volumes1, [st_gid])))
      | _ \<Rightarrow> Inl (Uncaught AttributeError))"

definition after_mounts :: "world \<Rightarrow> options \<Rightarrow> string list option \<Rightarrow> volumes \<Rightarrow> outcome" where
  "after_mounts w opts apt_keys volumes =
     (case (if opt_docker_passthrough opts then passthrough w opts volumes else Inr (volumes, [])) of
        Inl out \<Rightarrow> out
      | Inr (volumes1, groups) \<Rightarrow>
          (case generate_dockerfile apt_keys of
             Inl e \<Rightarrow> Uncaught e
           | Inr _ \<Rightarrow>
               Orchestrate \<lparr> req_docker = opt_docker opts,
                                 req_docker_run_flags = opt_docker_run_flags opts,
                                 req_image_name = opt_image_name opts,
                                 req_uid = opt_uid opts, req_gid = opt_gid opts,
                                 req_groups = groups, req_volumes = volumes1,
                                 req_command = opt_command opts \<rparr>))"

text \<open>Lines 36 to 82 of the source, from \<^verbatim>\<open>read_packages\<close> to \<^verbatim>\<open>collect_volumes\<close>.\<close>

definition run_with :: "world \<Rightarrow> options \<Rightarrow> outcome" where
  "run_with w opts =
     (case read_packages w (opt_packages_file opts) of
        Inl e \<Rightarrow> if is_oserror e then Exit 1 PackagesFileMessage else Uncaught e
      | Inr packages \<Rightarrow>
     (case package_args (opt_package opts) of
        Inl e \<Rightarrow> Uncaught e
      | Inr more_packages \<Rightarrow>
     (case (if opt_apt_sources_file opts \<noteq> PyNone
            then map_sum id Some (py_path_name (opt_apt_sources_file opts)) else Inr None) of
        Inl e \<Rightarrow> Uncaught e
      | Inr apt_sources \<Rightarrow>
     (case (if opt_apt_keys opts \<noteq> PyNone
            then map_sum id Some (list_apt_keys w (opt_apt_keys opts)) else Inr None) of
        Inl e \<Rightarrow> Uncaught e
      | Inr apt_keys \<Rightarrow>
     (case install_script_names (opt_install_script opts) of
        Inl e \<Rightarrow> Uncaught e
      | Inr install_scripts \<Rightarrow>
     (case py_str2 (opt_home_dir opts) (opt_work_dir opts) of
        Inl e \<Rightarrow> Uncaught e
      | Inr work_dir \<Rightarrow>
          if py_eq_int (opt_uid opts) 0 \<or> py_eq_int (opt_gid opts) 0 then Exit 1 RootMessage
          else
            (case collect_volumes w (opt_mount opts) work_dir (\<not> opt_no_recursive_mount opts) of
               Inl e \<Rightarrow> if e = FileNotFoundError then Exit 1 MountPathMessage else Uncaught e
             | Inr volumes \<Rightarrow> after_mounts w opts apt_keys volumes)))))))"

definition main :: "world \<Rightarrow> namespace \<Rightarrow> outcome" where
  "main w args =
     (case ConfigMerger_init w args of
        Inl e \<Rightarrow> Uncaught e
      | Inr config \<Rightarrow>
          (case Options_init w config of
             Inl e \<Rightarrow> Uncaught e
           | Inr opts \<Rightarrow> run_with w opts))"

subsection \<open>The command line\<close>

text \<open>
  The destinations \<^verbatim>\<open>arg_parser()\<close> declares, and the namespace it returns for the
  arguments given: every destination is an attribute, \<^verbatim>\<open>None\<close> unless given (the
  positional \<^verbatim>\<open>command\<close> defaults to the empty list).
\<close>

definition arg_parser :: "string list" where
  "arg_parser =
     [''command'', ''config_file'', ''no_config_file'', ''name'', ''directory'',
      ''install_script'', ''no_install_script'', ''base_image'', ''package'',
      ''packages_file'', ''apt_sources_file'', ''no_apt_sources_file'', ''apt_keys'',
      ''no_apt_keys'', ''uid'', ''gid'', ''username'', ''home_dir'', ''shell'', ''work_dir'',
      ''mount'', ''no_recursive_mount'', ''docker_passthrough'', ''verbose'']"

definition parse_args :: "(string \<times> pyval) list \<Rightarrow> namespace" where
  "parse_args given =
     map (\<lambda>dest. (dest, case map_of given dest of
                          Some v \<Rightarrow> v
                        | None \<Rightarrow> if dest = ''command'' then PyList [] else PyNone))
       arg_parser"


subsection \<open>Invariants of the reader\<close>

text \<open>
  Section names kept by the reader are never empty and never \<^verbatim>\<open>DEFAULT\<close>, and the
  section being read is \<^verbatim>\<open>DEFAULT\<close> or one of them. Every option name it keeps is its
  own lower-casing.
\<close>

definition names_ok :: "ini_state \<Rightarrow> bool" where
  "names_ok st =
     ((\<forall>n \<in> fst ` set (st_sections st). n \<noteq> [] \<and> n \<noteq> default_section) \<and>
      (\<forall>n. st_sectname st = Some n \<longrightarrow> n = default_section \<or> n \<in> fst ` set (st_sections st)))"

definition keys_lower :: "ini_state \<Rightarrow> bool" where
  "keys_lower st =
     ((\<forall>n opts k v. (n, opts) \<in> set (st_sections st) \<longrightarrow> (k, v) \<in> set opts \<longrightarrow> lower k = k) \<and>
      (\<forall>k v. (k, v) \<in> set (st_defaults st) \<longrightarrow> lower k = k))"

subsection \<open>Files the reader rejects\<close>






subsection \<open>Parsed paths and the writes of the mount resolver\<close>


text \<open>
  The assignments \<^verbatim>\<open>volumes[...] = ...\<close> one pass of the outer loop of \<^verbatim>\<open>collect_volumes\<close>
  makes, in their order: the mount itself, then its symlinked directories. \<open>mount_error\<close>
  is the error the pass raises, \<open>mount_step\<close> the dict it leaves, and \<open>agree\<close> says that
  no two writes give one key two values.
\<close>

definition subdir_writes :: "world \<Rightarrow> string \<Rightarrow> pure_path \<Rightarrow> dirent list \<Rightarrow> volumes" where
  "subdir_writes w mount_src mount_dst subdirs =
     map (\<lambda>subdir. (resolve w (path_str (Path [os_path_join mount_src (d_name subdir)])),
                     path_str (Path [path_str mount_dst, d_name subdir])))
       (filter (\<lambda>subdir. d_is_symlink subdir \<and> d_is_dir subdir) subdirs)"

definition mount_writes :: "world \<Rightarrow> string \<Rightarrow> bool \<Rightarrow> string \<Rightarrow> volumes" where
  "mount_writes w work_dir recursive mount_arg_str =
     (let mount_arg = Path [mount_arg_str];
          mount_src = resolve w (path_str mount_arg);
          mount_dst = Path [work_dir, path_name mount_arg]
      in (mount_src, path_str mount_dst) #
         (if recursive \<and> is_dir w mount_src then
            (case scandir w mount_src of
               Inl e \<Rightarrow> []
             | Inr subdirs \<Rightarrow> subdir_writes w mount_src mount_dst subdirs)
          else []))"

definition mount_error :: "world \<Rightarrow> bool \<Rightarrow> string \<Rightarrow> error option" where
  "mount_error w recursive mount_arg_str =
     (let mount_src = resolve w (path_str (Path [mount_arg_str]))
      in if recursive \<and> is_dir w mount_src then
           (case scandir w mount_src of Inl e \<Rightarrow> Some e | Inr subdirs \<Rightarrow> None)
         else None)"

definition mount_step :: "world \<Rightarrow> string \<Rightarrow> bool \<Rightarrow> string \<Rightarrow> volumes \<Rightarrow> volumes" where
  "mount_step w work_dir recursive mount_arg_str volumes =
     (let mount_arg = Path [mount_arg_str];
          mount_src = resolve w (path_str mount_arg);
          mount_dst = Path [work_dir, path_name mount_arg];
          volumes1 = AList.update mount_src (path_str mount_dst) volumes
      in if recursive \<and> is_dir w mount_src then
           (case scandir w mount_src of
              Inl e \<Rightarrow> volumes1
            | Inr subdirs \<Rightarrow> scan_subdirs w mount_src mount_dst subdirs volumes1)
         else volumes1)"

definition agree :: "volumes \<Rightarrow> bool" where
  "agree ws = list_all (\<lambda>(k, v). list_all (\<lambda>(k', v'). k \<noteq> k' \<or> v = v') ws) ws"

subsection \<open>Concrete environments\<close>

text \<open>
  \<open>plain_world\<close>: user and group 1000, the current directory is called \<^verbatim>\<open>proj\<close>, no
  variable is set and no file exists. \<open>file_world\<close> adds the default config file with
  the given lines.
\<close>

definition unlines :: "string list \<Rightarrow> string" where
  "unlines ls = concat (map (\<lambda>l. l @ [CHR 0x0A]) ls)"

definition plain_world :: world where
  "plain_world =
     \<lparr> getenv = (\<lambda>name. None), geteuid = 1000, getegid = 1000, cwd_name = ''proj'',
       path_exists = (\<lambda>p. False), is_dir = (\<lambda>p. False), resolve = (\<lambda>p. p),
       scandir = (\<lambda>p. Inr []), open_read = (\<lambda>p. Inl FileNotFoundError),
       listdir = (\<lambda>p. Inl FileNotFoundError), urlparse = (\<lambda>u. ([], [])),
       stat = (\<lambda>p. Inl FileNotFoundError) \<rparr>"

definition file_world :: "string list \<Rightarrow> world" where
  "file_world ls =
     plain_world
       \<lparr> path_exists := (\<lambda>p. p = DEFAULT_CONFIG_FILE),
         open_read := (\<lambda>p. if p = PyStr DEFAULT_CONFIG_FILE then Inr (unlines ls)
                             else Inl FileNotFoundError) \<rparr>"


text \<open>
  The daemon path is set in the environment (\<^verbatim>\<open>DOCKER=/custom/docker\<close>) and in the
  config file (\<^verbatim>\<open>docker = /usr/bin/docker\<close>).
\<close>

definition docker_world :: world where
  "docker_world =
     plain_world
       \<lparr> getenv := (\<lambda>name. if name = ''DOCKER'' then Some ''/custom/docker'' else None),
         path_exists := (\<lambda>p. p = DEFAULT_CONFIG_FILE),
         open_read := (\<lambda>p. if p = PyStr DEFAULT_CONFIG_FILE
                             then Inr (unlines [''[myproj]'', ''docker = /usr/bin/docker''])
                             else Inl FileNotFoundError) \<rparr>"

definition docker_doc :: ini_doc where
  "docker_doc =
     \<lparr> doc_sections = [(''myproj'', [(''docker'', Some ''/usr/bin/docker'')])],
       doc_defaults = [] \<rparr>"

definition docker_merger :: config_merger where
  "docker_merger =
     \<lparr> cm_args = parse_args [], cm_config = Some docker_doc, cm_config_section = ''myproj'',
       cm_config_file = PyStr DEFAULT_CONFIG_FILE \<rparr>"

text \<open>A merger with no arguments given and no config file; two install scripts on disk.\<close>

definition bare_merger :: config_merger where
  "bare_merger =
     \<lparr> cm_args = parse_args [], cm_config = None, cm_config_section = [],
       cm_config_file = PyNone \<rparr>"

definition scripts_world :: world where
  "scripts_world = plain_world \<lparr> path_exists := (\<lambda>p. p \<in> set [''b.sh'', ''c.sh'']) \<rparr>"

text \<open>
  A config file that writes one key in upper case and the daemon socket in kebab case,
  and the merger built from it.
\<close>

definition upper_world :: world where
  "upper_world = file_world [''[p]'', ''BASE-IMAGE = alpine'', ''docker-host = tcp://h'']"

definition upper_doc :: ini_doc where
  "upper_doc = \<lparr> doc_sections = [(''p'', [(''base-image'', Some ''alpine''), (''docker-host'', Some ''tcp://h'')])],
                  doc_defaults = [] \<rparr>"

definition upper_merger :: config_merger where
  "upper_merger =
     \<lparr> cm_args = parse_args [], cm_config = Some upper_doc, cm_config_section = ''p'',
       cm_config_file = PyStr DEFAULT_CONFIG_FILE \<rparr>"

text \<open>
  Worlds for \<^verbatim>\<open>main\<close> and the mount resolver. In all of them the default packages file
  can be read and the default apt keys directory exists, so that \<^verbatim>\<open>main\<close> gets as far as
  the hand-over. In \<open>cwd_world\<close> the current directory is \<^verbatim>\<open>/work/proj\<close>, with a plain
  subdirectory and a file; \<open>root_config_world\<close> adds a config file asking for uid 0;
  \<open>cwd_link_world\<close> adds a symlink \<^verbatim>\<open>vendor\<close> to \<^verbatim>\<open>/elsewhere\<close>. In \<open>twin_world\<close> the
  directory \<^verbatim>\<open>/d\<close> holds two symlinks to \<^verbatim>\<open>/elsewhere\<close>; in \<open>link_world\<close> it holds one,
  and \<^verbatim>\<open>/elsewhere\<close> and the plain subdirectory \<^verbatim>\<open>/d/sub\<close> hold symlinks to \<^verbatim>\<open>/deep\<close>.
\<close>

definition ready_world :: world where
  "ready_world =
     plain_world
       \<lparr> path_exists := (\<lambda>p. p = DEFAULT_APT_KEYS),
         open_read := (\<lambda>p. if p = PyStr DEFAULT_PACKAGES_FILE then Inr ''make gcc''
                             else Inl FileNotFoundError),
         listdir := (\<lambda>p. if p = PyStr DEFAULT_APT_KEYS then Inr [''key.gpg'']
                           else Inl FileNotFoundError) \<rparr>"

definition cwd_world :: world where
  "cwd_world =
     ready_world
       \<lparr> is_dir := (\<lambda>p. p = ''/work/proj'' \<or> p = ''/work/proj/src''),
         resolve := (\<lambda>p. if p = ''.'' then ''/work/proj'' else p),
         scandir := (\<lambda>p. if p = ''/work/proj''
                           then Inr [\<lparr> d_name = ''src'', d_is_symlink = False, d_is_dir = True \<rparr>,
                                     \<lparr> d_name = ''Makefile'', d_is_symlink = False, d_is_dir = False \<rparr>]
                           else Inr []) \<rparr>"

definition root_config_world :: world where
  "root_config_world =
     cwd_world
       \<lparr> path_exists := (\<lambda>p. p = DEFAULT_APT_KEYS \<or> p = DEFAULT_CONFIG_FILE),
         open_read := (\<lambda>p. if p = PyStr DEFAULT_PACKAGES_FILE then Inr ''make gcc''
                             else if p = PyStr DEFAULT_CONFIG_FILE then Inr (unlines [''[proj]'', ''uid = 0''])
                             else Inl FileNotFoundError) \<rparr>"


definition twin_world :: world where
  "twin_world =
     ready_world
       \<lparr> is_dir := (\<lambda>p. p = ''/d'' \<or> p = ''/elsewhere''),
         resolve := (\<lambda>p. if p = ''/d/L1'' \<or> p = ''/d/L2'' then ''/elsewhere'' else p),
         scandir := (\<lambda>p. if p = ''/d''
                           then Inr [\<lparr> d_name = ''L1'', d_is_symlink = True, d_is_dir = True \<rparr>,
                                     \<lparr> d_name = ''L2'', d_is_symlink = True, d_is_dir = True \<rparr>]
                           else Inr []) \<rparr>"

definition link_world :: world where
  "link_world =
     ready_world
       \<lparr> is_dir := (\<lambda>p. p \<in> set [''/d'', ''/d/sub'', ''/elsewhere'', ''/deep'']),
         resolve := (\<lambda>p. if p = ''/d/L'' then ''/elsewhere''
                           else if p = ''/elsewhere/M'' \<or> p = ''/d/sub/N'' then ''/deep'' else p),
         scandir := (\<lambda>p. if p = ''/d''
                           then Inr [\<lparr> d_name = ''sub'', d_is_symlink = False, d_is_dir = True \<rparr>,
                                     \<lparr> d_name = ''L'', d_is_symlink = True, d_is_dir = True \<rparr>,
                                     \<lparr> d_name = ''f'', d_is_symlink = True, d_is_dir = False \<rparr>]
                           else if p = ''/elsewhere''
                           then Inr [\<lparr> d_name = ''M'', d_is_symlink = True, d_is_dir = True \<rparr>]
                           else if p = ''/d/sub''
                           then Inr [\<lparr> d_name = ''N'', d_is_symlink = True, d_is_dir = True \<rparr>]
                           else Inr []) \<rparr>"

section \<open>Properties\<close>

subsection \<open>The reader keeps its invariant\<close>

lemma match_section_nonempty: "match_section v = Some h \<Longrightarrow> h \<noteq> []"
  by (auto simp: match_section_def Let_def split: list.splits if_splits)

lemma keys_update: "k \<in> fst ` set al \<Longrightarrow> fst ` set (AList.update k v al) = fst ` set al"
  by (induction al) auto

lemma cursect_set_names: "names_ok st \<Longrightarrow> names_ok (cursect_set st k v)"
proof (cases "st_sectname st")
  case None
  assume "names_ok st"
  then show ?thesis using None by (simp add: cursect_set_def)
next
  case (Some n)
  assume ok: "names_ok st"
  show ?thesis
  proof (cases "n = default_section")
    case True
    then show ?thesis using ok Some by (simp add: cursect_set_def names_ok_def)
  next
    case False
    then have "n \<in> fst ` set (st_sections st)" using ok Some by (simp add: names_ok_def)
    then show ?thesis using ok Some False
      by (simp add: cursect_set_def names_ok_def keys_update)
  qed
qed

lemma read_header_names:
  "names_ok st \<Longrightarrow> h \<noteq> [] \<Longrightarrow> read_header st h = Inr st' \<Longrightarrow> names_ok st'"
  unfolding names_ok_def read_header_def
  by (auto split: if_splits) force+

lemma read_option_names:
  "names_ok st \<Longrightarrow> read_option st s v = Inr st' \<Longrightarrow> names_ok st'"
proof -
  assume ok: "names_ok st" and r: "read_option st s v = Inr st'"
  obtain raw optval where m: "match_option v = (raw, optval)" by (cases "match_option v")
  let ?st1 = "st\<lparr> st_optname := Some (lower (rstrip raw)), st_e := (st_e st \<or> raw = []),
                  st_added_options := (s, lower (rstrip raw)) # st_added_options st \<rparr>"
  have ok1: "names_ok ?st1" using ok unfolding names_ok_def by simp
  from r m have "st' = cursect_set ?st1 (lower (rstrip raw))
        (case optval of None \<Rightarrow> None | Some x \<Rightarrow> Some [strip x])"
    by (simp add: read_option_def Let_def split: if_splits)
  then show "names_ok st'" using cursect_set_names [OF ok1] by simp
qed

lemma read_line_names:
  assumes "names_ok st" and "read_line st line = Inr st'"
  shows "names_ok st'"
proof -
  have ind: "names_ok (st\<lparr> st_indent_level := n \<rparr>)" for n
    using assms(1) unfolding names_ok_def by simp
  show ?thesis
  proof (cases "(if is_comment_line line then [] else strip line) = []")
    case True
    then show ?thesis using assms
      by (auto simp: read_line_def Let_def cursect_set_names split: if_splits option.splits)
  next
    case False
    show ?thesis
    proof (cases "(if length (takeWhile isspace line) > st_indent_level st then current_option st else None)")
      case (Some optname)
      then show ?thesis using assms False
        by (auto simp: read_line_def Let_def cursect_set_names split: option.splits)
    next
      case None
      let ?st1 = "st\<lparr> st_indent_level := length (takeWhile isspace line) \<rparr>"
      show ?thesis
      proof (cases "match_section (if is_comment_line line then [] else strip line)")
        case (Some h)
        then have "read_header ?st1 h = Inr st'" using assms(2) False None
          by (simp add: read_line_def Let_def)
        then show ?thesis using read_header_names [OF ind match_section_nonempty [OF Some]] by blast
      next
        case N2: None
        then obtain s where "read_option ?st1 s (if is_comment_line line then [] else strip line) = Inr st'"
          using assms(2) False None
          by (auto simp: read_line_def Let_def split: option.splits)
        then show ?thesis using read_option_names [OF ind] by blast
      qed
    qed
  qed
qed

lemma read_lines_names:
  "names_ok st \<Longrightarrow> read_lines st ls = Inr st' \<Longrightarrow> names_ok st'"
  by (induction ls arbitrary: st) (auto split: sum.splits dest: read_line_names)

lemma ini_read_sections:
  assumes "ini_read ls = Inr doc" and "n \<in> set (sections doc)"
  shows "n \<noteq> [] \<and> n \<noteq> default_section"
proof -
  from assms(1) obtain st where st: "read_lines ini_initial ls = Inr st"
    and doc: "doc = \<lparr> doc_sections = map (\<lambda>(n, opts). (n, join_multiline_values opts)) (st_sections st),
                     doc_defaults = join_multiline_values (st_defaults st) \<rparr>"
    by (auto simp: ini_read_def split: sum.splits if_splits)
  have "names_ok ini_initial" by (simp add: names_ok_def ini_initial_def)
  then have "names_ok st" using st by (rule read_lines_names)
  moreover have "sections doc = map fst (st_sections st)"
    by (simp add: doc sections_def case_prod_unfold comp_def)
  ultimately show ?thesis using assms(2) by (auto simp: names_ok_def)
qed


lemma ConfigMerger_init_config:
  assumes "ConfigMerger_init w args = Inr self" and "cm_config self = Some config"
  shows "cm_args self = args \<and> cm_config_section self \<in> set (sections config) \<and>
         cm_config_section self \<noteq> [] \<and> cm_config_section self \<noteq> default_section"
proof -
  from assms obtain config_file first rest where
    rd: "config_read w config_file = Inr config" and sec: "sections config = first # rest"
    and self: "self = \<lparr> cm_args = args, cm_config = Some config, cm_config_section = first,
                         cm_config_file = config_file \<rparr>"
    by (auto simp: ConfigMerger_init_def bind_res_def Let_def split: sum.splits if_splits list.splits)
  have "config \<noteq> empty_doc" using sec by (auto simp: empty_doc_def sections_def)
  then obtain ls where "ini_read ls = Inr config"
    using rd by (auto simp: config_read_def split: sum.splits if_splits)
  then have "first \<noteq> [] \<and> first \<noteq> default_section"
    using ini_read_sections [of ls config first] sec by simp
  then show ?thesis using self sec by simp
qed


subsection \<open>Bare keys of the config file\<close>




subsection \<open>Environment variables\<close>


lemma docker_merger_built: "ConfigMerger_init docker_world (parse_args []) = Inr docker_merger"
  by code_simp





subsection \<open>File defaults\<close>

text \<open>
  C4, as the code has it. When neither the command line nor the config file gives the
  option (\<^verbatim>\<open>get(name)\<close> is \<^verbatim>\<open>None\<close>) and the negation option is not set, \<^verbatim>\<open>get_file\<close>
  with a list of candidate paths returns the candidates that exist, in their order,
  when there is at least one, and \<^verbatim>\<open>None\<close> when there is none.
\<close>

theorem file_default_list:
  assumes "get self name PyNone = Inr PyNone"
    and "get self (''no-'' @ name) PyNone = Inr no"
    and "\<not> truthy no"
  shows "get_file w self name (PathList candidates) =
           Inr (if filter (path_exists w) candidates = [] then PyNone
                else PyList (map PyStr (filter (path_exists w) candidates)))"
  using assms by (simp add: get_file_def bind_res_def Let_def)

theorem file_default_list_witness:
  "get_file scripts_world bare_merger ''install-script'' (PathList [''a.sh'', ''b.sh'', ''c.sh''])
     = Inr (PyList [PyStr ''b.sh'', PyStr ''c.sh''])"
proof -
  have a: "get bare_merger ''install-script'' PyNone = Inr PyNone" by code_simp
  have b: "get bare_merger (''no-'' @ ''install-script'') PyNone = Inr PyNone" by code_simp
  have c: "\<not> truthy PyNone" by simp
  have f: "filter (path_exists scripts_world) [''a.sh'', ''b.sh'', ''c.sh''] = [''b.sh'', ''c.sh'']"
    by code_simp
  from file_default_list [OF a b c, of scripts_world "[''a.sh'', ''b.sh'', ''c.sh'']"] f
  show ?thesis by simp
qed

text \<open>
  C4 as stated fails where no candidate exists: the install scripts resolve to
  \<^verbatim>\<open>None\<close>, not to the empty list.
\<close>

theorem file_default_list_empty_counterexample:
  "get bare_merger ''install-script'' PyNone = Inr PyNone \<and>
   get bare_merger ''no-install-script'' PyNone = Inr PyNone \<and>
   filter (path_exists plain_world) [DEFAULT_INSTALL_SCRIPT] = [] \<and>
   get_file plain_world bare_merger ''install-script'' (PathList [DEFAULT_INSTALL_SCRIPT]) = Inr PyNone \<and>
   get_file plain_world bare_merger ''install-script'' (PathList [DEFAULT_INSTALL_SCRIPT])
     \<noteq> Inr (PyList [])"
  by code_simp

subsection \<open>What the reader does with a malformed file\<close>



















lemma rstrip_empty: "rstrip s = [] \<Longrightarrow> lower (rstrip (rstrip s)) = []"
  by (simp add: lower_def rstrip_def)






subsection \<open>Reading the config file\<close>





subsection \<open>Option names are kept in lower case\<close>

lemma keys_lowerD1:
  "keys_lower st \<Longrightarrow> (n, opts) \<in> set (st_sections st) \<Longrightarrow> (k, v) \<in> set opts \<Longrightarrow> lower k = k"
  unfolding keys_lower_def by blast

lemma keys_lowerD2:
  "keys_lower st \<Longrightarrow> (k, v) \<in> set (st_defaults st) \<Longrightarrow> lower k = k"
  unfolding keys_lower_def by blast

lemma set_update_subset: "set (AList.update k v al) \<subseteq> insert (k, v) (set al)"
  by (induction al) auto

lemma cursect_keys:
  assumes "keys_lower st" and "(k, v) \<in> set (cursect st)"
  shows "lower k = k"
proof (cases "st_sectname st")
  case None
  then show ?thesis using assms by (simp add: cursect_def)
next
  case (Some n)
  show ?thesis
  proof (cases "n = default_section")
    case True
    then have "cursect st = st_defaults st" using Some by (simp add: cursect_def)
    then show ?thesis using assms keys_lowerD2 by metis
  next
    case False
    show ?thesis
    proof (cases "map_of (st_sections st) n")
      case None
      then show ?thesis using assms Some False by (simp add: cursect_def)
    next
      case (Some d)
      then have "(n, d) \<in> set (st_sections st)" by (rule map_of_SomeD)
      moreover have "cursect st = d" using \<open>st_sectname st = Some n\<close> False Some
        by (simp add: cursect_def)
      ultimately show ?thesis using assms keys_lowerD1 by metis
    qed
  qed
qed


lemma lower_char_cases: "lower_char c = c \<or> lower_char c \<in> set lower_chars"
proof (cases "map_of (zip upper_chars lower_chars) c")
  case None
  then have "lower_char c = c" by (simp only: lower_char_def option.case)
  then show ?thesis by (rule disjI1)
next
  case (Some l)
  then have "(c, l) \<in> set (zip upper_chars lower_chars)"
    by (rule map_of_SomeD)
  then have "l \<in> set lower_chars"
    by (rule set_zip_rightD)
  moreover have "lower_char c = l" using Some by (simp only: lower_char_def option.case)
  ultimately show ?thesis by (simp only: simp_thms)
qed

lemma lower_chars_not_upper: "c \<in> set lower_chars \<Longrightarrow> c \<notin> set upper_chars"
  unfolding lower_chars_def upper_chars_def by auto

lemma lower_char_fixed:
  assumes "c \<in> set lower_chars"
  shows "lower_char c = c"
proof -
  have "c \<notin> set upper_chars"
    using assms by (rule lower_chars_not_upper)
  moreover have "length upper_chars = length lower_chars"
    by (simp add: upper_chars_def lower_chars_def)
  ultimately have "map_of (zip upper_chars lower_chars) c = None"
    by (simp add: map_of_zip_is_None)
  then show ?thesis by (simp only: lower_char_def option.case)
qed

lemma lower_char_idem: "lower_char (lower_char c) = lower_char c"
  using lower_char_cases [of c] lower_char_fixed [of "lower_char c"] by (elim disjE) simp_all

lemma lower_idem: "lower (lower s) = lower s"
  by (simp add: lower_def lower_char_idem)

lemma cursect_set_keys:
  assumes "keys_lower st" and "lower k = k"
  shows "keys_lower (cursect_set st k v)"
proof (cases "st_sectname st")
  case None
  then show ?thesis using assms by (simp add: cursect_set_def)
next
  case (Some n)
  have upd: "lower k' = k'" if "(k', v') \<in> set (AList.update k v (cursect st))" for k' v'
  proof -
    from that set_update_subset [of k v "cursect st"]
    have "(k', v') = (k, v) \<or> (k', v') \<in> set (cursect st)" by blast
    then show ?thesis using assms(2) cursect_keys [OF assms(1)] by auto
  qed
  show ?thesis
  proof (cases "n = default_section")
    case True
    then have c: "cursect st = st_defaults st" using Some by (simp add: cursect_def)
    have s: "cursect_set st k v = st\<lparr> st_defaults := AList.update k v (st_defaults st) \<rparr>"
      using Some True by (simp add: cursect_set_def)
    show ?thesis
      unfolding s keys_lower_def
      using upd c keys_lowerD1 [OF assms(1)] by auto
  next
    case False
    have s: "cursect_set st k v =
        st\<lparr> st_sections := AList.update n (AList.update k v (cursect st)) (st_sections st) \<rparr>"
      using Some False by (simp add: cursect_set_def)
    have sec: "lower k' = k'"
      if "(n', opts) \<in> set (AList.update n (AList.update k v (cursect st)) (st_sections st))"
        and "(k', v') \<in> set opts" for n' opts k' v'
    proof -
      from that(1) set_update_subset [of n "AList.update k v (cursect st)" "st_sections st"]
      have "(n', opts) = (n, AList.update k v (cursect st)) \<or> (n', opts) \<in> set (st_sections st)"
        by blast
      then show ?thesis
      proof
        assume "(n', opts) = (n, AList.update k v (cursect st))"
        then show ?thesis using that(2) upd by simp
      next
        assume "(n', opts) \<in> set (st_sections st)"
        then show ?thesis using that(2) keys_lowerD1 [OF assms(1)] by simp
      qed
    qed
    show ?thesis
      unfolding s keys_lower_def
      using sec keys_lowerD2 [OF assms(1)] by auto
  qed
qed


lemma read_header_keys: "keys_lower st \<Longrightarrow> read_header st h = Inr st' \<Longrightarrow> keys_lower st'"
  unfolding keys_lower_def read_header_def by (auto split: if_splits) blast+

lemma read_option_keys:
  assumes "keys_lower st" and "read_option st s v = Inr st'"
  shows "keys_lower st'"
proof -
  obtain raw optval where m: "match_option v = (raw, optval)" by (cases "match_option v")
  let ?st1 = "st\<lparr> st_optname := Some (lower (rstrip raw)), st_e := (st_e st \<or> raw = []),
                  st_added_options := (s, lower (rstrip raw)) # st_added_options st \<rparr>"
  have ok1: "keys_lower ?st1" using assms(1) unfolding keys_lower_def by simp
  from assms(2) m have "st' = cursect_set ?st1 (lower (rstrip raw))
        (case optval of None \<Rightarrow> None | Some x \<Rightarrow> Some [strip x])"
    by (simp add: read_option_def Let_def split: if_splits)
  then show ?thesis using cursect_set_keys [OF ok1 lower_idem] by simp
qed

lemma current_key:
  assumes "map_of (cursect st) k = Some x" and "keys_lower st"
  shows "lower k = k"
proof -
  from assms(1) have "(k, x) \<in> set (cursect st)" by (rule map_of_SomeD)
  then show ?thesis using cursect_keys [OF assms(2)] by simp
qed

lemma read_line_keys:
  assumes "keys_lower st" and "read_line st line = Inr st'"
  shows "keys_lower st'"
proof -
  have ind: "keys_lower (st\<lparr> st_indent_level := n \<rparr>)" for n
    using assms(1) unfolding keys_lower_def by simp
  show ?thesis
  proof (cases "(if is_comment_line line then [] else strip line) = []")
    case True
    show ?thesis
    proof (cases "current_option st")
      case None
      then show ?thesis using assms True by (simp add: read_line_def Let_def)
    next
      case (Some optname)
      show ?thesis
      proof (cases "map_of (cursect st) optname")
        case None
        then show ?thesis using assms True Some by (simp add: read_line_def Let_def)
      next
        case S2: (Some x)
        then have "lower optname = optname" using assms(1) by (rule current_key)
        then have "keys_lower (cursect_set st optname y)" for y
          using assms(1) by (simp add: cursect_set_keys)
        then show ?thesis using assms True Some S2
          by (auto simp: read_line_def Let_def split: option.splits if_splits)
      qed
    qed
  next
    case False
    show ?thesis
    proof (cases "(if length (takeWhile isspace line) > st_indent_level st then current_option st else None)")
      case (Some optname)
      show ?thesis
      proof (cases "map_of (cursect st) optname")
        case None
        then show ?thesis using assms False Some by (simp add: read_line_def Let_def)
      next
        case S2: (Some x)
        then have "lower optname = optname" using assms(1) by (rule current_key)
        then have "keys_lower (cursect_set st optname y)" for y
          using assms(1) by (simp add: cursect_set_keys)
        then show ?thesis using assms(2) False Some S2
          by (auto simp: read_line_def Let_def split: option.splits)
      qed
    next
      case None
      let ?st1 = "st\<lparr> st_indent_level := length (takeWhile isspace line) \<rparr>"
      show ?thesis
      proof (cases "match_section (if is_comment_line line then [] else strip line)")
        case (Some h)
        then have "read_header ?st1 h = Inr st'" using assms(2) False None
          by (simp add: read_line_def Let_def)
        then show ?thesis using read_header_keys [OF ind] by blast
      next
        case N2: None
        then obtain s where "read_option ?st1 s (if is_comment_line line then [] else strip line) = Inr st'"
          using assms(2) False None
          by (auto simp: read_line_def Let_def split: option.splits)
        then show ?thesis using read_option_keys [OF ind] by blast
      qed
    qed
  qed
qed

lemma read_lines_keys:
  "keys_lower st \<Longrightarrow> read_lines st ls = Inr st' \<Longrightarrow> keys_lower st'"
  by (induction ls arbitrary: st) (auto split: sum.splits dest: read_line_keys)

lemma join_multiline_keys: "fst ` set (join_multiline_values opts) = fst ` set opts"
  by (force simp: join_multiline_values_def)

lemma ini_read_keys:
  assumes "ini_read ls = Inr doc" and "(n, opts) \<in> set (doc_sections doc)" and "k \<in> fst ` set opts"
  shows "lower k = k"
proof -
  from assms(1) obtain st where st: "read_lines ini_initial ls = Inr st"
    and doc: "doc = \<lparr> doc_sections = map (\<lambda>(n, opts). (n, join_multiline_values opts)) (st_sections st),
                     doc_defaults = join_multiline_values (st_defaults st) \<rparr>"
    by (auto simp: ini_read_def split: sum.splits if_splits)
  have "keys_lower ini_initial" by (simp add: keys_lower_def ini_initial_def)
  then have kl: "keys_lower st" using st by (rule read_lines_keys)
  from assms(2) doc obtain opts0 where o: "(n, opts0) \<in> set (st_sections st)"
    "opts = join_multiline_values opts0"
    by auto
  have "k \<in> fst ` set opts0" using assms(3) o(2) by (simp add: join_multiline_keys)
  then obtain v where "(k, v) \<in> set opts0" by force
  then show ?thesis using keys_lowerD1 [OF kl o(1)] by simp
qed

subsection \<open>Which key of the config file an option reads\<close>

lemma upper_merger_built: "ConfigMerger_init upper_world (parse_args []) = Inr upper_merger"
  by code_simp

lemma ConfigMerger_init_read:
  assumes "ConfigMerger_init w args = Inr self" and "cm_config self = Some config"
  shows "\<exists>ls. ini_read ls = Inr config"
proof -
  from assms obtain config_file first rest where
    rd: "config_read w config_file = Inr config" and sec: "sections config = first # rest"
    by (auto simp: ConfigMerger_init_def bind_res_def Let_def split: sum.splits if_splits list.splits)
  have "config \<noteq> empty_doc" using sec by (auto simp: empty_doc_def sections_def)
  then show ?thesis
    using rd by (auto simp: config_read_def split: sum.splits if_splits)
qed

text \<open>
  C7, as the code has it. For a merger with a config, the key looked up for a name is
  the lower-cased name, in the active section and then in \<^verbatim>\<open>DEFAULT\<close>; the keys the
  reader kept are lower-cased too, so the match ignores the case of the file's key. An
  option with an environment variable reads the key that is the lower-cased variable
  name: \<^verbatim>\<open>docker\<close>, \<^verbatim>\<open>docker_host\<close>, \<^verbatim>\<open>docker_run_flags\<close>, with underscores.
\<close>

theorem config_key_is_lowercased_name:
  assumes "ConfigMerger_init w args = Inr self" and "cm_config self = Some config"
    and "map_of (doc_sections config) (cm_config_section self) = Some opts"
  shows "(has_option config (cm_config_section self) name \<longleftrightarrow>
            map_of opts (lower name) \<noteq> None \<or> map_of (doc_defaults config) (lower name) \<noteq> None) \<and>
         (\<forall>k \<in> fst ` set opts. lower k = k) \<and>
         (getenv w envname = None \<longrightarrow> get_env w self envname d = get self (lower envname) d) \<and>
         lower ''DOCKER'' = ''docker'' \<and> lower ''DOCKER_HOST'' = ''docker_host'' \<and>
         lower ''DOCKER_RUN_FLAGS'' = ''docker_run_flags''"
proof -
  have 1: "has_option config (cm_config_section self) name \<longleftrightarrow>
            map_of opts (lower name) \<noteq> None \<or> map_of (doc_defaults config) (lower name) \<noteq> None"
    using ConfigMerger_init_config [OF assms(1,2)] assms(3) by (simp add: has_option_def)
  from ConfigMerger_init_read [OF assms(1,2)] obtain ls where ls: "ini_read ls = Inr config" ..
  have "(cm_config_section self, opts) \<in> set (doc_sections config)"
    using assms(3) by (rule map_of_SomeD)
  then have 2: "\<forall>k \<in> fst ` set opts. lower k = k"
    using ini_read_keys [OF ls] by blast
  have 3: "getenv w envname = None \<longrightarrow> get_env w self envname d = get self (lower envname) d"
    by (simp add: get_env_def)
  have 4: "lower ''DOCKER'' = ''docker'' \<and> lower ''DOCKER_HOST'' = ''docker_host'' \<and>
         lower ''DOCKER_RUN_FLAGS'' = ''docker_run_flags''"
    by code_simp
  show ?thesis using 1 2 3 4 by blast
qed

theorem config_key_is_lowercased_name_witness:
  "has_option upper_doc ''p'' ''Base-Image'' \<and> \<not> has_option upper_doc ''p'' ''docker_host'' \<and>
   get_env upper_world upper_merger ''DOCKER_HOST'' (PyStr DEFAULT_DOCKER_HOST)
     = get upper_merger ''docker_host'' (PyStr DEFAULT_DOCKER_HOST)"
proof -
  have c: "cm_config upper_merger = Some upper_doc" by (simp add: upper_merger_def)
  have s: "map_of (doc_sections upper_doc) (cm_config_section upper_merger)
             = Some [(''base-image'', Some ''alpine''), (''docker-host'', Some ''tcp://h'')]"
    by code_simp
  have e: "getenv upper_world ''DOCKER_HOST'' = None" by code_simp
  have l1: "map_of [(''base-image'', Some ''alpine''), (''docker-host'', Some ''tcp://h'')] (lower ''Base-Image'') \<noteq> None"
    by code_simp
  have l2: "map_of [(''base-image'', Some ''alpine''), (''docker-host'', Some ''tcp://h'')] (lower ''docker_host'') = None"
    "map_of (doc_defaults upper_doc) (lower ''docker_host'') = None"
    by code_simp+
  have n: "cm_config_section upper_merger = ''p''" by (simp add: upper_merger_def)
  from config_key_is_lowercased_name [OF upper_merger_built c s, of "''Base-Image''"]
       config_key_is_lowercased_name [OF upper_merger_built c s, of "''docker_host''" "''DOCKER_HOST''"]
       e l1 l2 n
  show ?thesis by simp
qed

text \<open>
  C7 as stated fails twice on one file: the key \<^verbatim>\<open>BASE-IMAGE\<close> sets the base image
  although it differs in case from \<^verbatim>\<open>base-image\<close>, and the kebab-case key
  \<^verbatim>\<open>docker-host\<close> is not read, the daemon socket keeping its default.
\<close>

theorem config_key_kebab_case_sensitive_counterexample:
  "file_lines (unlines [''[p]'', ''BASE-IMAGE = alpine'', ''docker-host = tcp://h''])
     = [''[p]'', ''BASE-IMAGE = alpine'', ''docker-host = tcp://h''] \<and>
   ConfigMerger_init upper_world (parse_args []) = Inr upper_merger \<and>
   map_sum id (\<lambda>opts. (opt_base_image opts, opt_docker_host opts)) (Options_init upper_world upper_merger)
     = Inr (PyStr ''alpine'', PyStr DEFAULT_DOCKER_HOST)"
  by code_simp

subsection \<open>Parsing a path that was printed\<close>


lemma split_where_nonempty: "split_where P s \<noteq> []"
  by (induction s) (auto split: list.splits)














subsection \<open>The mount resolver as a list of writes\<close>

lemma scan_subdirs_writes:
  "map_of (scan_subdirs w mount_src mount_dst subdirs volumes) =
   map_of (rev (subdir_writes w mount_src mount_dst subdirs) @ volumes)"
proof (induction subdirs arbitrary: volumes)
  case Nil
  then show ?case by (simp add: subdir_writes_def)
next
  case (Cons subdir rest)
  show ?case
  proof (cases "d_is_symlink subdir \<and> d_is_dir subdir")
    case True
    then show ?thesis
      using Cons.IH by (simp add: subdir_writes_def Let_def update_conv')
  next
    case False
    then show ?thesis using Cons.IH by (auto simp: subdir_writes_def)
  qed
qed

lemma mount_step_writes:
  "map_of (mount_step w work_dir recursive p volumes) =
   map_of (rev (mount_writes w work_dir recursive p) @ volumes)"
proof (cases "recursive \<and> is_dir w (resolve w (path_str (Path [p])))")
  case True
  show ?thesis
  proof (cases "scandir w (resolve w (path_str (Path [p])))")
    case (Inl e)
    then show ?thesis using True
      by (simp add: mount_step_def mount_writes_def Let_def update_conv')
  next
    case (Inr subdirs)
    then show ?thesis using True
      by (simp add: mount_step_def mount_writes_def Let_def scan_subdirs_writes update_conv')
  qed
next
  case False
  then show ?thesis
    by (auto simp: mount_step_def mount_writes_def Let_def update_conv')
qed

lemma collect_loop_step:
  "collect_loop w (PyStr p # rest) work_dir recursive volumes =
     (case mount_error w recursive p of
        Some e \<Rightarrow> Inl e
      | None \<Rightarrow> collect_loop w rest work_dir recursive (mount_step w work_dir recursive p volumes))"
  by (auto simp: mount_error_def mount_step_def Let_def split: sum.splits)

lemma collect_loop_writes:
  assumes "list_all (\<lambda>p. mount_error w recursive p = None) ps"
  shows "\<exists>vs. collect_loop w (map PyStr ps) work_dir recursive volumes = Inr vs \<and>
              map_of vs = map_of (rev (concat (map (mount_writes w work_dir recursive) ps)) @ volumes)"
  using assms
proof (induction ps arbitrary: volumes)
  case Nil
  then show ?case by simp
next
  case (Cons p ps)
  from Cons.prems have ok: "mount_error w recursive p = None"
    and rest: "list_all (\<lambda>p. mount_error w recursive p = None) ps" by simp_all
  from Cons.IH [OF rest, of "mount_step w work_dir recursive p volumes"]
  obtain vs where vs: "collect_loop w (map PyStr ps) work_dir recursive (mount_step w work_dir recursive p volumes) = Inr vs"
    "map_of vs = map_of (rev (concat (map (mount_writes w work_dir recursive) ps)) @ mount_step w work_dir recursive p volumes)"
    by blast
  have "collect_loop w (map PyStr (p # ps)) work_dir recursive volumes = Inr vs"
    using ok vs(1) by (simp only: list.map collect_loop_step option.case)
  moreover have "map_of vs = map_of (rev (concat (map (mount_writes w work_dir recursive) (p # ps))) @ volumes)"
    using vs(2) mount_step_writes [of w work_dir recursive p volumes]
    by (simp add: fun_eq_iff map_add_def)
  ultimately show ?case by blast
qed

lemma collect_loop_errors:
  assumes "collect_loop w (map PyStr ps) work_dir recursive volumes = Inr vs"
  shows "list_all (\<lambda>p. mount_error w recursive p = None) ps"
  using assms
proof (induction ps arbitrary: volumes)
  case Nil
  then show ?case by simp
next
  case (Cons p ps)
  from Cons.prems have "mount_error w recursive p = None"
    by (simp only: list.map collect_loop_step split: option.splits) simp
  moreover from this Cons.prems
  have "collect_loop w (map PyStr ps) work_dir recursive (mount_step w work_dir recursive p volumes) = Inr vs"
    by (simp only: list.map collect_loop_step option.case)
  ultimately show ?case using Cons.IH by simp
qed

lemma agree_iff:
  "agree ws \<longleftrightarrow> (\<forall>k v v'. (k, v) \<in> set ws \<longrightarrow> (k, v') \<in> set ws \<longrightarrow> v = v')"
  unfolding agree_def list_all_iff by fastforce

lemma map_of_agree:
  assumes "agree ws"
  shows "map_of ws k = Some v \<longleftrightarrow> (k, v) \<in> set ws"
proof
  assume "map_of ws k = Some v"
  then show "(k, v) \<in> set ws" by (rule map_of_SomeD)
next
  assume in_ws: "(k, v) \<in> set ws"
  then obtain v' where v': "map_of ws k = Some v'" using weak_map_of_SomeI by fastforce
  then have "(k, v') \<in> set ws" by (rule map_of_SomeD)
  then have "v' = v" using assms in_ws unfolding agree_iff by blast
  then show "map_of ws k = Some v" using v' by simp
qed

lemma map_of_single_valued:
  assumes "(k, v) \<in> set ws" and "\<forall>v'. (k, v') \<in> set ws \<longrightarrow> v' = v"
  shows "map_of ws k = Some v"
proof -
  from assms(1) obtain v' where v': "map_of ws k = Some v'" using weak_map_of_SomeI by fastforce
  then have "(k, v') \<in> set ws" by (rule map_of_SomeD)
  then have "v' = v" using assms(2) by blast
  then show ?thesis using v' by simp
qed

lemma map_of_agree_set:
  assumes "agree ws" and "set ws' = set ws"
  shows "map_of ws' = map_of ws"
proof
  fix k
  have a': "agree ws'" using assms unfolding agree_iff by simp
  show "map_of ws' k = map_of ws k"
  proof (cases "map_of ws k")
    case None
    then have "k \<notin> fst ` set ws" by (simp add: map_of_eq_None_iff)
    then have "map_of ws' k = None" using assms(2) by (simp add: map_of_eq_None_iff)
    then show ?thesis using None by simp
  next
    case (Some v)
    then have "(k, v) \<in> set ws'" using map_of_agree [OF assms(1)] assms(2) by simp
    then show ?thesis using map_of_agree [OF a'] Some by simp
  qed
qed

subsection \<open>Order of the mounts\<close>

lemma collect_volumes_strs:
  "collect_volumes w (PyList (map PyStr ps)) work_dir recursive
     = collect_loop w (map PyStr ps) work_dir recursive []"
  by (simp add: collect_volumes_def bind_res_def)

lemma writes_set:
  "set ps = set qs \<Longrightarrow>
   set (concat (map (mount_writes w work_dir recursive) ps))
     = set (concat (map (mount_writes w work_dir recursive) qs))"
  by auto

lemma collect_volumes_map:
  assumes "collect_volumes w (PyList (map PyStr ps)) work_dir recursive = Inr vs"
  shows "map_of vs = map_of (rev (concat (map (mount_writes w work_dir recursive) ps)))"
proof -
  have ok: "list_all (\<lambda>p. mount_error w recursive p = None) ps"
    using assms collect_loop_errors by (simp add: collect_volumes_strs)
  from collect_loop_writes [OF ok, of work_dir "[]"] assms show ?thesis
    by (auto simp: collect_volumes_strs)
qed

text \<open>
  C5, as the code has it. Take a list of mount paths for which no two writes of the
  resolver (a mount itself, or a symlinked directory found in it) give one canonical
  host path two different container paths. If the resolver returns a mapping for the
  list, it returns one for every reordering of the list, and the two mappings are the
  same map from host paths to container paths.
\<close>

theorem reordering_mounts:
  assumes "mset ps = mset qs"
    and "agree (concat (map (mount_writes w work_dir recursive) ps))"
    and "collect_volumes w (PyList (map PyStr ps)) work_dir recursive = Inr vs"
  shows "\<exists>vs'. collect_volumes w (PyList (map PyStr qs)) work_dir recursive = Inr vs' \<and>
               map_of vs' = map_of vs"
proof -
  let ?W = "\<lambda>xs. concat (map (mount_writes w work_dir recursive) xs)"
  have sets: "set ps = set qs" using assms(1) by (rule mset_eq_setD)
  have "list_all (\<lambda>p. mount_error w recursive p = None) ps"
    using assms(3) collect_loop_errors by (simp add: collect_volumes_strs)
  then have ok: "list_all (\<lambda>p. mount_error w recursive p = None) qs"
    using sets by (simp add: list_all_iff)
  from collect_loop_writes [OF ok, of work_dir "[]"]
  obtain vs' where vs': "collect_volumes w (PyList (map PyStr qs)) work_dir recursive = Inr vs'"
    "map_of vs' = map_of (rev (?W qs))"
    by (auto simp: collect_volumes_strs)
  have a: "agree (rev (?W ps))" using assms(2) by (simp add: agree_iff)
  have "set (rev (?W qs)) = set (rev (?W ps))"
    using writes_set [OF sets, of w work_dir recursive] by simp
  then have "map_of (rev (?W qs)) = map_of (rev (?W ps))"
    by (rule map_of_agree_set [OF a])
  then have "map_of vs' = map_of vs"
    using vs'(2) collect_volumes_map [OF assms(3)] by simp
  then show ?thesis using vs'(1) by blast
qed

theorem reordering_mounts_witness:
  "\<exists>vs'. collect_volumes ready_world (PyList [PyStr ''/srv/b'', PyStr ''/srv/lib/a'']) ''/home/build/src'' True = Inr vs' \<and>
         map_of vs' = map_of [(''/srv/lib/a'', ''/home/build/src/a''), (''/srv/b'', ''/home/build/src/b'')]"
proof -
  have m: "mset [''/srv/lib/a'', ''/srv/b''] = mset [''/srv/b'', ''/srv/lib/a'']" by simp
  have a: "agree (concat (map (mount_writes ready_world ''/home/build/src'' True) [''/srv/lib/a'', ''/srv/b'']))"
    by code_simp
  have c: "collect_volumes ready_world (PyList (map PyStr [''/srv/lib/a'', ''/srv/b''])) ''/home/build/src'' True
             = Inr [(''/srv/lib/a'', ''/home/build/src/a''), (''/srv/b'', ''/home/build/src/b'')]"
    by code_simp
  from reordering_mounts [OF m a c] show ?thesis by simp
qed

text \<open>
  C5 as stated fails: \<^verbatim>\<open>.\<close> and \<^verbatim>\<open>/work/proj\<close> have different basenames (the empty
  name and \<^verbatim>\<open>proj\<close>) and the same canonical path when the current directory is
  \<^verbatim>\<open>/work/proj\<close>, and the later of the two decides the container path.
\<close>

theorem reordering_mounts_counterexample:
  "path_name (Path [''.'']) \<noteq> path_name (Path [''/work/proj'']) \<and>
   collect_volumes cwd_world (PyList [PyStr ''.'', PyStr ''/work/proj'']) ''/home/build/src'' True
     = Inr [(''/work/proj'', ''/home/build/src/proj'')] \<and>
   collect_volumes cwd_world (PyList [PyStr ''/work/proj'', PyStr ''.'']) ''/home/build/src'' True
     = Inr [(''/work/proj'', ''/home/build/src'')]"
  by code_simp

subsection \<open>Symlinked directories\<close>

text \<open>
  C6, as the code has it. Let the resolver, with expansion on, return a mapping for a
  list that holds \<open>D\<close>, a directory whose scan gives an entry \<open>L\<close> that is a symlink
  and a directory, and let every write to the canonical path of \<open>D\<close>, and every write
  to the canonical path of \<open>D/L\<close>, carry the container path named below. Then the
  mapping sends the canonical path of \<open>D\<close> to the work directory joined with
  the name of \<open>D\<close>, and the canonical path of \<open>D/L\<close> to that joined with \<open>L\<close>; and its
  keys are exactly the host paths written for the mounts and for the symlinked
  directories among their direct children.
\<close>

theorem symlinked_child_is_mounted:
  assumes "collect_volumes w (PyList (map PyStr ps)) work_dir True = Inr vs"
    and "D \<in> set ps"
    and "is_dir w (resolve w (path_str (Path [D])))"
    and "scandir w (resolve w (path_str (Path [D]))) = Inr subdirs"
    and "L \<in> set subdirs" and "d_is_symlink L" and "d_is_dir L"
    and "\<forall>v. (resolve w (path_str (Path [D])), v)
                \<in> set (concat (map (mount_writes w work_dir True) ps)) \<longrightarrow>
             v = path_str (Path [work_dir, path_name (Path [D])])"
    and "\<forall>v. (resolve w (path_str (Path [os_path_join (resolve w (path_str (Path [D]))) (d_name L)])), v)
                \<in> set (concat (map (mount_writes w work_dir True) ps)) \<longrightarrow>
             v = path_str (Path [path_str (Path [work_dir, path_name (Path [D])]), d_name L])"
  shows "map_of vs (resolve w (path_str (Path [D])))
           = Some (path_str (Path [work_dir, path_name (Path [D])])) \<and>
         map_of vs (resolve w (path_str (Path [os_path_join (resolve w (path_str (Path [D]))) (d_name L)])))
           = Some (path_str (Path [path_str (Path [work_dir, path_name (Path [D])]), d_name L])) \<and>
         fst ` set vs = fst ` set (concat (map (mount_writes w work_dir True) ps))"
proof -
  let ?W = "concat (map (mount_writes w work_dir True) ps)"
  let ?H = "resolve w (path_str (Path [D]))"
  let ?T = "Path [work_dir, path_name (Path [D])]"
  have m: "map_of vs = map_of (rev ?W)" using assms(1) by (rule collect_volumes_map)
  have top: "(?H, path_str ?T) \<in> set (mount_writes w work_dir True D)"
    unfolding mount_writes_def Let_def by (rule list.set_intros(1))
  have "(resolve w (path_str (Path [os_path_join ?H (d_name L)])), path_str (Path [path_str ?T, d_name L]))
          \<in> set (subdir_writes w ?H ?T subdirs)"
    using assms(5-7) by (force simp: subdir_writes_def)
  then have child: "(resolve w (path_str (Path [os_path_join ?H (d_name L)])), path_str (Path [path_str ?T, d_name L]))
          \<in> set (mount_writes w work_dir True D)"
    using assms(3,4) unfolding mount_writes_def Let_def by (auto intro: list.set_intros(2))
  have 1: "map_of vs ?H = Some (path_str ?T)"
    unfolding m
  proof (rule map_of_single_valued)
    show "(?H, path_str ?T) \<in> set (rev ?W)" using top assms(2) by auto
    show "\<forall>v. (?H, v) \<in> set (rev ?W) \<longrightarrow> v = path_str ?T" using assms(8) by simp
  qed
  have 2: "map_of vs (resolve w (path_str (Path [os_path_join ?H (d_name L)])))
             = Some (path_str (Path [path_str ?T, d_name L]))"
    unfolding m
  proof (rule map_of_single_valued)
    show "(resolve w (path_str (Path [os_path_join ?H (d_name L)])), path_str (Path [path_str ?T, d_name L]))
            \<in> set (rev ?W)"
      using child assms(2) by auto
    show "\<forall>v. (resolve w (path_str (Path [os_path_join ?H (d_name L)])), v) \<in> set (rev ?W) \<longrightarrow>
              v = path_str (Path [path_str ?T, d_name L])"
      using assms(9) by simp
  qed
  have "dom (map_of vs) = dom (map_of (rev ?W))" using m by simp
  then have 3: "fst ` set vs = fst ` set ?W" by (simp add: dom_map_of_conv_image_fst)
  show ?thesis using 1 2 3 by blast
qed

theorem symlinked_child_is_mounted_witness:
  "map_of [(''/d'', ''/home/build/src/d''), (''/elsewhere'', ''/home/build/src/d/L'')] ''/d''
     = Some ''/home/build/src/d'' \<and>
   map_of [(''/d'', ''/home/build/src/d''), (''/elsewhere'', ''/home/build/src/d/L'')] ''/elsewhere''
     = Some ''/home/build/src/d/L'' \<and>
   collect_volumes link_world (PyList [PyStr ''/d'']) ''/home/build/src'' True
     = Inr [(''/d'', ''/home/build/src/d''), (''/elsewhere'', ''/home/build/src/d/L'')] \<and>
   ''/deep'' \<notin> fst ` set [(''/d'', ''/home/build/src/d''), (''/elsewhere'', ''/home/build/src/d/L'')]"
proof -
  let ?L = "\<lparr> d_name = ''L'', d_is_symlink = True, d_is_dir = True \<rparr>"
  let ?subdirs = "[\<lparr> d_name = ''sub'', d_is_symlink = False, d_is_dir = True \<rparr>, ?L,
                   \<lparr> d_name = ''f'', d_is_symlink = True, d_is_dir = False \<rparr>]"
  have c: "collect_volumes link_world (PyList (map PyStr [''/d''])) ''/home/build/src'' True
             = Inr [(''/d'', ''/home/build/src/d''), (''/elsewhere'', ''/home/build/src/d/L'')]"
    by code_simp
  have d: "''/d'' \<in> set [''/d'']" by simp
  have r: "resolve link_world (path_str (Path [''/d''])) = ''/d''" by code_simp
  have i: "is_dir link_world (resolve link_world (path_str (Path [''/d''])))" by code_simp
  have s: "scandir link_world (resolve link_world (path_str (Path [''/d'']))) = Inr ?subdirs"
    by code_simp
  have l: "?L \<in> set ?subdirs" "d_is_symlink ?L" "d_is_dir ?L" by simp_all
  have e: "resolve link_world (path_str (Path [os_path_join ''/d'' (d_name ?L)])) = ''/elsewhere''"
    by code_simp
  have p: "path_str (Path [''/home/build/src'', path_name (Path [''/d''])]) = ''/home/build/src/d''"
    "path_str (Path [''/home/build/src/d'', d_name ?L]) = ''/home/build/src/d/L''"
    by code_simp+
  have ws: "concat (map (mount_writes link_world ''/home/build/src'' True) [''/d''])
              = [(''/d'', ''/home/build/src/d''), (''/elsewhere'', ''/home/build/src/d/L'')]"
    by code_simp
  have a1: "\<forall>v. (resolve link_world (path_str (Path [''/d''])), v)
                \<in> set (concat (map (mount_writes link_world ''/home/build/src'' True) [''/d''])) \<longrightarrow>
             v = path_str (Path [''/home/build/src'', path_name (Path [''/d''])])"
    using ws r e p by simp
  have a2: "\<forall>v. (resolve link_world
                  (path_str (Path [os_path_join (resolve link_world (path_str (Path [''/d''])))
                                     (d_name ?L)])), v)
                \<in> set (concat (map (mount_writes link_world ''/home/build/src'' True) [''/d''])) \<longrightarrow>
             v = path_str (Path [path_str (Path [''/home/build/src'', path_name (Path [''/d''])]),
                                 d_name ?L])"
    using ws r e p by simp
  from symlinked_child_is_mounted [OF c d i s l a1 a2] r e p
  have "map_of [(''/d'', ''/home/build/src/d''), (''/elsewhere'', ''/home/build/src/d/L'')] ''/d''
          = Some ''/home/build/src/d'' \<and>
        map_of [(''/d'', ''/home/build/src/d''), (''/elsewhere'', ''/home/build/src/d/L'')] ''/elsewhere''
          = Some ''/home/build/src/d/L''"
    by simp
  moreover have "''/deep'' \<notin> fst ` set [(''/d'', ''/home/build/src/d''), (''/elsewhere'', ''/home/build/src/d/L'')]"
    by simp
  ultimately show ?thesis using c by simp
qed

text \<open>
  C6 as stated fails when a second symlink of \<open>D\<close> leads to the same directory: the
  later entry of the scan overwrites the earlier one, and the mapping has no entry
  for \<^verbatim>\<open>L1\<close>.
\<close>

theorem symlinked_child_is_mounted_counterexample:
  "is_dir twin_world (resolve twin_world (path_str (Path [''/d'']))) \<and>
   scandir twin_world (resolve twin_world (path_str (Path [''/d''])))
     = Inr [\<lparr> d_name = ''L1'', d_is_symlink = True, d_is_dir = True \<rparr>,
            \<lparr> d_name = ''L2'', d_is_symlink = True, d_is_dir = True \<rparr>] \<and>
   resolve twin_world (path_str (Path [os_path_join ''/d'' ''L1''])) = ''/elsewhere'' \<and>
   collect_volumes twin_world (PyList [PyStr ''/d'']) ''/home/build/src'' True
     = Inr [(''/d'', ''/home/build/src/d''), (''/elsewhere'', ''/home/build/src/d/L2'')] \<and>
   map_of [(''/d'', ''/home/build/src/d''), (''/elsewhere'', ''/home/build/src/d/L2'')] ''/elsewhere''
     \<noteq> Some (path_str (Path [path_str (Path [''/home/build/src'', path_name (Path [''/d''])]), ''L1'']))"
  by code_simp

subsection \<open>The default mount\<close>






subsection \<open>A mount path that does not exist\<close>

text \<open>
  The resolver raises only what \<^verbatim>\<open>os.scandir\<close> raises, and it scans only a path for
  which \<^verbatim>\<open>is_dir\<close> answered true.
\<close>

lemma collect_volumes_error_source:
  assumes "collect_volumes w (PyList (map PyStr ps)) work_dir recursive = Inl e"
  shows "list_ex (\<lambda>p. mount_error w recursive p = Some e) ps"
proof -
  have "collect_loop w (map PyStr ps) work_dir recursive volumes = Inl e \<Longrightarrow>
        list_ex (\<lambda>p. mount_error w recursive p = Some e) ps" for volumes
  proof (induction ps arbitrary: volumes)
    case Nil
    then show ?case by simp
  next
    case (Cons p ps)
    show ?case
    proof (cases "mount_error w recursive p")
      case None
      then have "collect_loop w (map PyStr ps) work_dir recursive (mount_step w work_dir recursive p volumes) = Inl e"
        using Cons.prems by (simp only: list.map collect_loop_step option.case)
      then show ?thesis using Cons.IH by simp
    next
      case (Some e')
      then have "e' = e" using Cons.prems by (simp only: list.map collect_loop_step option.case) simp
      then show ?thesis using Some by simp
    qed
  qed
  then show ?thesis using assms by (simp add: collect_volumes_strs)
qed

lemma mount_error_needs_directory:
  "mount_error w recursive p = Some e \<Longrightarrow>
   recursive \<and> is_dir w (resolve w (path_str (Path [p]))) \<and> scandir w (resolve w (path_str (Path [p]))) = Inl e"
  by (auto simp: mount_error_def Let_def split: if_splits sum.splits)

text \<open>
  C2 against the code. The mount path \<^verbatim>\<open>/missing\<close> does not exist; \<^verbatim>\<open>collect_volumes\<close>
  raises nothing and maps it, the handler for \<^verbatim>\<open>FileNotFoundError\<close> in \<^verbatim>\<open>main\<close> is not
  reached, and \<^verbatim>\<open>main\<close> goes on to the build context and docker with the missing path
  among the volumes.
\<close>

theorem missing_mount_path_is_mounted:
  "path_exists ready_world ''/missing'' = False \<and>
   is_dir ready_world (resolve ready_world ''/missing'') = False \<and>
   collect_volumes ready_world (PyList [PyStr ''/missing'']) ''/home/build/src'' True
     = Inr [(''/missing'', ''/home/build/src/missing'')] \<and>
   main ready_world (parse_args [(''mount'', PyList [PyStr ''/missing''])])
     = Orchestrate
         \<lparr> req_docker = PyStr ''docker'',
           req_docker_run_flags = PyStr ''--interactive --tty --rm --env LC_ALL=C.UTF-8'',
           req_image_name = PyStr ''proj-builder'', req_uid = PyInt 1000, req_gid = PyInt 1000,
           req_groups = [],
           req_volumes = [(''/missing'', ''/home/build/src/missing'')],
           req_command = PyList [] \<rparr>"
  by code_simp

subsection \<open>Running as root\<close>

text \<open>
  When the resolved uid or gid is the integer 0, \<^verbatim>\<open>main\<close> does not get to the hand-over.
\<close>

lemma root_guard:
  assumes "py_eq_int (opt_uid opts) 0 \<or> py_eq_int (opt_gid opts) 0"
  shows "run_with w opts \<noteq> Orchestrate r"
  using assms unfolding run_with_def
  by (auto split: sum.splits if_splits)

lemma root_guard_main:
  assumes "ConfigMerger_init w args = Inr config" and "Options_init w config = Inr opts"
    and "py_eq_int (opt_uid opts) 0 \<or> py_eq_int (opt_gid opts) 0"
  shows "main w args \<noteq> Orchestrate r"
  using assms root_guard by (simp add: main_def)

text \<open>
  C9 against the code. The config file asks for \<^verbatim>\<open>uid = 0\<close> and the command line
  gives no uid: the resolved uid is the string \<^verbatim>\<open>'0'\<close>, which \<^verbatim>\<open>opts.uid == 0\<close> does not
  recognise, and \<^verbatim>\<open>main\<close> goes on to the build context and docker with that uid. With \<^verbatim>\<open>--uid 0\<close> on the command
  line the same world exits with the message about root.
\<close>

theorem config_file_uid_zero_reaches_docker:
  "file_lines (unlines [''[proj]'', ''uid = 0'']) = [''[proj]'', ''uid = 0''] \<and>
   getattr (parse_args []) ''uid'' = PyNone \<and>
   main root_config_world (parse_args [])
     = Orchestrate
         \<lparr> req_docker = PyStr ''docker'',
           req_docker_run_flags = PyStr ''--interactive --tty --rm --env LC_ALL=C.UTF-8'',
           req_image_name = PyStr ''proj-builder'', req_uid = PyStr ''0'', req_gid = PyInt 1000,
           req_groups = [],
           req_volumes = [(''/work/proj'', ''/home/build/src'')],
           req_command = PyList [] \<rparr> \<and>
   main ready_world (parse_args [(''uid'', PyInt 0)]) = Exit 1 RootMessage"
  by code_simp

end
